theory Spec2Isabelle
  imports Complex_Main "HOL-Library.Sublist"
begin

section \<open>The user-channel sample of ozz-animation\<close>

text \<open>
  This theory embeds \<^verbatim>\<open>samples/user_channel/sample_user_channel.cc\<close>: the class
  \<^verbatim>\<open>LoadSampleApplication\<close>, which attaches a box to a skeleton joint and detaches it
  again, driven by a float track. The member functions of the class become functions on a
  record of its data members. The jobs, the playback controller, the loaders and the
  allocator live in the ozz library and the sample framework, outside this file of the
  repository; they are parameters of the model, collected in records of functions, so that
  every theorem holds for any behaviour of these collaborators (or says which behaviour
  it needs).

  Floating point numbers are modelled by the rationals: arithmetic is exact, there is no
  rounding, no infinity and no NaN. The one place where this shows in the control flow of
  a statement is the division by the duration of the animation, which is some infinity or
  NaN in C++ and 0 in HOL when the duration is zero; the specification requires a positive
  duration, and the theorems that speak of a ratio assume that the duration is not zero.
\<close>

subsection \<open>Matrices\<close>

type_synonym float = rat

text \<open>
  Modelled from the spec: \<^verbatim>\<open>ozz::math::Float4x4\<close> (\<^verbatim>\<open>ozz/base/maths/simd_math.h\<close> is not
  part of the sources at hand). The spec calls it a 4x4 transform with a product and an
  inverse. The sixteen entries are listed row by row, in mathematical notation: the entry
  in row \<open>i\<close> and column \<open>j\<close> is \<open>aij\<close>.
\<close>

datatype Float4x4 = Float4x4
  float float float float
  float float float float
  float float float float
  float float float float

text \<open>Modelled from the spec: \<^verbatim>\<open>Float4x4::identity()\<close>.\<close>

definition identity :: Float4x4 where
  "identity = Float4x4 1 0 0 0  0 1 0 0  0 0 1 0  0 0 0 1"

text \<open>
  Modelled from the spec: \<^verbatim>\<open>Float4x4::Translation(v)\<close>, the translation by the first
  three components of \<open>v\<close>; the fourth component is ignored.
\<close>

fun Translation :: "float \<times> float \<times> float \<times> float \<Rightarrow> Float4x4" where
  "Translation (x, y, z, w) = Float4x4 1 0 0 x  0 1 0 y  0 0 1 z  0 0 0 1"

text \<open>Modelled from the spec: the matrix product \<^verbatim>\<open>operator*(Float4x4, Float4x4)\<close>.\<close>

fun mul4x4 :: "Float4x4 \<Rightarrow> Float4x4 \<Rightarrow> Float4x4" where
  "mul4x4 (Float4x4 a00 a01 a02 a03 a10 a11 a12 a13 a20 a21 a22 a23 a30 a31 a32 a33)
          (Float4x4 b00 b01 b02 b03 b10 b11 b12 b13 b20 b21 b22 b23 b30 b31 b32 b33) =
   Float4x4
    (a00*b00 + a01*b10 + a02*b20 + a03*b30) (a00*b01 + a01*b11 + a02*b21 + a03*b31)
    (a00*b02 + a01*b12 + a02*b22 + a03*b32) (a00*b03 + a01*b13 + a02*b23 + a03*b33)
    (a10*b00 + a11*b10 + a12*b20 + a13*b30) (a10*b01 + a11*b11 + a12*b21 + a13*b31)
    (a10*b02 + a11*b12 + a12*b22 + a13*b32) (a10*b03 + a11*b13 + a12*b23 + a13*b33)
    (a20*b00 + a21*b10 + a22*b20 + a23*b30) (a20*b01 + a21*b11 + a22*b21 + a23*b31)
    (a20*b02 + a21*b12 + a22*b22 + a23*b32) (a20*b03 + a21*b13 + a22*b23 + a23*b33)
    (a30*b00 + a31*b10 + a32*b20 + a33*b30) (a30*b01 + a31*b11 + a32*b21 + a33*b31)
    (a30*b02 + a31*b12 + a32*b22 + a33*b32) (a30*b03 + a31*b13 + a32*b23 + a33*b33)"

instantiation Float4x4 :: times
begin

definition times_Float4x4 :: "Float4x4 \<Rightarrow> Float4x4 \<Rightarrow> Float4x4" where
  "times_Float4x4 a b = mul4x4 a b"

instance ..

end

text \<open>
  The determinant of a 3x3 and of a 4x4 matrix, the adjugate (the transposed matrix of
  cofactors) and the product with a number, for the inverse below.
\<close>

definition det3 ::
  "float \<Rightarrow> float \<Rightarrow> float \<Rightarrow> float \<Rightarrow> float \<Rightarrow> float \<Rightarrow> float \<Rightarrow> float \<Rightarrow> float \<Rightarrow> float" where
  "det3 a b c d e f g h i = a * (e * i - f * h) - b * (d * i - f * g) + c * (d * h - e * g)"

fun det4x4 :: "Float4x4 \<Rightarrow> float" where
  "det4x4 (Float4x4 a00 a01 a02 a03 a10 a11 a12 a13 a20 a21 a22 a23 a30 a31 a32 a33) =
     a00 * det3 a11 a12 a13 a21 a22 a23 a31 a32 a33
   - a01 * det3 a10 a12 a13 a20 a22 a23 a30 a32 a33
   + a02 * det3 a10 a11 a13 a20 a21 a23 a30 a31 a33
   - a03 * det3 a10 a11 a12 a20 a21 a22 a30 a31 a32"

fun adjugate :: "Float4x4 \<Rightarrow> Float4x4" where
  "adjugate (Float4x4 a00 a01 a02 a03 a10 a11 a12 a13 a20 a21 a22 a23 a30 a31 a32 a33) =
   Float4x4
    (det3 a11 a12 a13 a21 a22 a23 a31 a32 a33) (- det3 a01 a02 a03 a21 a22 a23 a31 a32 a33)
    (det3 a01 a02 a03 a11 a12 a13 a31 a32 a33) (- det3 a01 a02 a03 a11 a12 a13 a21 a22 a23)
    (- det3 a10 a12 a13 a20 a22 a23 a30 a32 a33) (det3 a00 a02 a03 a20 a22 a23 a30 a32 a33)
    (- det3 a00 a02 a03 a10 a12 a13 a30 a32 a33) (det3 a00 a02 a03 a10 a12 a13 a20 a22 a23)
    (det3 a10 a11 a13 a20 a21 a23 a30 a31 a33) (- det3 a00 a01 a03 a20 a21 a23 a30 a31 a33)
    (det3 a00 a01 a03 a10 a11 a13 a30 a31 a33) (- det3 a00 a01 a03 a10 a11 a13 a20 a21 a23)
    (- det3 a10 a11 a12 a20 a21 a22 a30 a31 a32) (det3 a00 a01 a02 a20 a21 a22 a30 a31 a32)
    (- det3 a00 a01 a02 a10 a11 a12 a30 a31 a32) (det3 a00 a01 a02 a10 a11 a12 a20 a21 a22)"

fun scale4x4 :: "float \<Rightarrow> Float4x4 \<Rightarrow> Float4x4" where
  "scale4x4 k (Float4x4 a00 a01 a02 a03 a10 a11 a12 a13 a20 a21 a22 a23 a30 a31 a32 a33) =
   Float4x4 (k*a00) (k*a01) (k*a02) (k*a03) (k*a10) (k*a11) (k*a12) (k*a13)
            (k*a20) (k*a21) (k*a22) (k*a23) (k*a30) (k*a31) (k*a32) (k*a33)"

text \<open>
  Modelled from the spec: \<^verbatim>\<open>Invert(Float4x4)\<close>, which the spec writes \<open>inverse(M)\<close>,
  computed as the adjugate divided by the determinant. The spec says nothing about a
  matrix without an inverse; here the division by a zero determinant follows HOL
  (\<open>1 / 0 = 0\<close>) and gives the zero matrix, so a statement about \<open>Invert m\<close> speaks of
  the inverse only where \<open>det4x4 m \<noteq> 0\<close>.
\<close>

definition Invert :: "Float4x4 \<Rightarrow> Float4x4" where
  "Invert m = scale4x4 (1 / det4x4 m) (adjugate m)"

text \<open>The scene constant \<^verbatim>\<open>kBoxInitialPosition\<close>.\<close>

definition kBoxInitialPosition :: "float \<times> float \<times> float \<times> float" where
  "kBoxInitialPosition = (0, 1 / 10, 3 / 10, 0)"

subsection \<open>The collaborators\<close>

text \<open>
  An edge of the track, as \<^verbatim>\<open>FloatTrackTriggeringJob::Edge\<close> is used by the sample: the
  ratio at which the track crosses the threshold, and the direction of the crossing.
\<close>

record Edge =
  time :: float
  rising :: bool

text \<open>
  The playback controller of the sample framework, as far as the sample reads it:
  \<^verbatim>\<open>time()\<close> and \<^verbatim>\<open>previous_time()\<close>.
\<close>

record PlaybackController =
  ctl_time :: float
  ctl_previous_time :: float

text \<open>
  The skeleton, as far as the sample reads it: the names of its joints.
  \<^verbatim>\<open>num_joints()\<close> is their number, \<^verbatim>\<open>num_soa_joints()\<close> the number of groups of
  four joints.
\<close>

record Skeleton =
  joint_names :: "string list"

definition num_joints :: "Skeleton \<Rightarrow> int" where
  "num_joints sk = int (length (joint_names sk))"

definition num_soa_joints :: "Skeleton \<Rightarrow> int" where
  "num_soa_joints sk = (num_joints sk + 3) div 4"

text \<open>
  The jobs and the controller. Each job is a function of the inputs the sample hands to
  it. A job that writes a buffer returns the buffer's new contents together with its
  \<^verbatim>\<open>bool\<close> result (a failed job may have written something); a job that writes a local
  variable of the calling function returns \<open>None\<close> for \<^verbatim>\<open>false\<close>. The types \<open>'a\<close>,
  \<open>'t\<close>, \<open>'c\<close> and \<open>'l\<close> stand for the animation, the track, the sampling cache and
  one SoA local transform.

  \<^item> \<open>duration a\<close> is \<^verbatim>\<open>animation_.duration()\<close>;
  \<^item> \<open>controller_Update a dt c\<close> is \<^verbatim>\<open>controller_.Update(animation_, _dt)\<close>;
  \<^item> \<open>controller_set_time t c\<close> is \<^verbatim>\<open>controller_.set_time(t)\<close>;
  \<^item> \<open>SamplingJob_Run a cache t out\<close> runs the sampling job with \<^verbatim>\<open>animation\<close>,
    \<^verbatim>\<open>cache\<close>, \<^verbatim>\<open>time\<close> and \<^verbatim>\<open>output\<close> set to these;
  \<^item> \<open>LocalToModelJob_Run sk inp out\<close> runs the local-to-model job with \<^verbatim>\<open>skeleton\<close>,
    \<^verbatim>\<open>input\<close> and \<^verbatim>\<open>output\<close> set to these;
  \<^item> \<open>FloatTrackSamplingJob_Run tr t\<close> samples the track at ratio \<open>t\<close>;
  \<^item> \<open>FloatTrackTriggeringJob_Run tr from to threshold n\<close> finds the edges of the track
    between the two ratios, into a buffer of \<open>n\<close> edges.
\<close>

record ('a, 't, 'c, 'l) collaborators =
  duration :: "'a \<Rightarrow> float"
  controller_Update :: "'a \<Rightarrow> float \<Rightarrow> PlaybackController \<Rightarrow> PlaybackController"
  controller_set_time :: "float \<Rightarrow> PlaybackController \<Rightarrow> PlaybackController"
  SamplingJob_Run :: "'a \<Rightarrow> 'c option \<Rightarrow> float \<Rightarrow> 'l list \<Rightarrow> bool \<times> 'c option \<times> 'l list"
  LocalToModelJob_Run :: "Skeleton \<Rightarrow> 'l list \<Rightarrow> Float4x4 list \<Rightarrow> bool \<times> Float4x4 list"
  FloatTrackSamplingJob_Run :: "'t \<Rightarrow> float \<Rightarrow> float option"
  FloatTrackTriggeringJob_Run :: "'t \<Rightarrow> float \<Rightarrow> float \<Rightarrow> float \<Rightarrow> nat \<Rightarrow> Edge list option"

subsection \<open>The application\<close>

text \<open>
  The data members of \<^verbatim>\<open>LoadSampleApplication\<close>, under their names without the
  final underscore (\<^verbatim>\<open>method_\<close> is \<open>reading_method\<close>). The cache is a pointer,
  \<open>None\<close> when \<^verbatim>\<open>NULL\<close>; the two ranges are the lists of their entries.
\<close>

record ('a, 't, 'c, 'l) LoadSampleApplication =
  controller :: PlaybackController
  skeleton :: Skeleton
  animation :: 'a
  cache :: "'c option"
  locals :: "'l list"
  models :: "Float4x4 list"
  track :: 't
  reading_method :: int
  attached :: bool
  attach_joint :: int
  box_world_transform :: Float4x4
  box_local_transform :: Float4x4

text \<open>
  The constructor. The members it does not mention are default-constructed: the
  controller, an empty skeleton, an animation and a track (given as arguments here) and
  two empty ranges.
\<close>

definition LoadSampleApplication_ctor ::
  "PlaybackController \<Rightarrow> 'a \<Rightarrow> 't \<Rightarrow> ('a, 't, 'c, 'l) LoadSampleApplication" where
  "LoadSampleApplication_ctor c a t =
     \<lparr>controller = c, skeleton = \<lparr>joint_names = []\<rparr>, animation = a,
      cache = None, locals = [], models = [], track = t,
      reading_method = 1, attached = False, attach_joint = 0,
      box_world_transform = Translation kBoxInitialPosition,
      box_local_transform = identity\<rparr>"

text \<open>
  \<^verbatim>\<open>Update_Joints\<close>: sample the animation into \<^verbatim>\<open>locals_\<close>, then convert to model space
  into \<^verbatim>\<open>models_\<close>; \<^verbatim>\<open>false\<close> as soon as one of the two jobs fails.
\<close>

definition Update_Joints ::
  "('a, 't, 'c, 'l) collaborators \<Rightarrow> float \<Rightarrow> ('a, 't, 'c, 'l) LoadSampleApplication
   \<Rightarrow> bool \<times> ('a, 't, 'c, 'l) LoadSampleApplication" where
  "Update_Joints env t s =
     (case SamplingJob_Run env (animation s) (cache s) t (locals s) of
        (ok1, cache', locals') \<Rightarrow>
          let s1 = s\<lparr>cache := cache', locals := locals'\<rparr> in
          if \<not> ok1 then (False, s1)
          else (case LocalToModelJob_Run env (skeleton s1) (locals s1) (models s1) of
                  (ok2, models') \<Rightarrow>
                    let s2 = s1\<lparr>models := models'\<rparr> in
                    if \<not> ok2 then (False, s2) else (True, s2)))"

text \<open>
  The read \<^verbatim>\<open>models_[attach_joint_]\<close>. An index outside the range has no defined
  behaviour in C++; the model returns \<open>None\<close> there, and every function that performs the
  read returns \<open>None\<close> in turn.
\<close>

definition models_at_attach_joint :: "('a, 't, 'c, 'l) LoadSampleApplication \<Rightarrow> Float4x4 option" where
  "models_at_attach_joint s =
     (if 0 \<le> attach_joint s \<and> attach_joint s < int (length (models s))
      then Some (models s ! nat (attach_joint s)) else None)"

text \<open>\<^verbatim>\<open>Update_SamplingMethod\<close>: the attachment state follows the sampled value of the track.\<close>

definition Update_SamplingMethod ::
  "('a, 't, 'c, 'l) collaborators \<Rightarrow> ('a, 't, 'c, 'l) LoadSampleApplication
   \<Rightarrow> (bool \<times> ('a, 't, 'c, 'l) LoadSampleApplication) option" where
  "Update_SamplingMethod env s =
     (case Update_Joints env (ctl_time (controller s)) s of
        (False, s1) \<Rightarrow> Some (False, s1)
      | (True, s1) \<Rightarrow>
          (case FloatTrackSamplingJob_Run env (track s1)
                  (ctl_time (controller s1) / duration env (animation s1)) of
             None \<Rightarrow> Some (False, s1)
           | Some attached_value \<Rightarrow>
               let previously_attached = attached s1;
                   s2 = s1\<lparr>attached := (attached_value \<noteq> 0)\<rparr>
               in if attached s2 \<and> \<not> previously_attached
                  then (case models_at_attach_joint s2 of
                          None \<Rightarrow> None
                        | Some m \<Rightarrow>
                            Some (True, s2\<lparr>box_local_transform :=
                                             Invert m * box_world_transform s2\<rparr>))
                  else Some (True, s2)))"

text \<open>
  The loop of \<^verbatim>\<open>Update_TriggeringMethod\<close> over the edges found, from index \<open>i\<close> on:
  \<^verbatim>\<open>for (size_t i = 0; i < edges.Count(); ++i)\<close>.
\<close>

function edges_loop ::
  "('a, 't, 'c, 'l) collaborators \<Rightarrow> Edge list \<Rightarrow> nat \<Rightarrow> ('a, 't, 'c, 'l) LoadSampleApplication
   \<Rightarrow> (bool \<times> ('a, 't, 'c, 'l) LoadSampleApplication) option" where
  "edges_loop env edges i s =
     (if i < length edges then
        (let edge = edges ! i;
             s1 = s\<lparr>attached := rising edge\<rparr>
         in case Update_Joints env (time edge * duration env (animation s1)) s1 of
              (False, s2) \<Rightarrow> Some (False, s2)
            | (True, s2) \<Rightarrow>
                (case models_at_attach_joint s2 of
                   None \<Rightarrow> None
                 | Some m \<Rightarrow>
                     if rising edge
                     then edges_loop env edges (i + 1)
                            (s2\<lparr>box_local_transform := Invert m * box_world_transform s2\<rparr>)
                     else edges_loop env edges (i + 1)
                            (s2\<lparr>box_world_transform := m * box_local_transform s2\<rparr>)))
      else Some (True, s))"
  by pat_completeness auto
termination
  by (relation "measure (\<lambda>(env, edges, i, s). length edges - i)") auto

declare edges_loop.simps [simp del]

text \<open>
  \<^verbatim>\<open>Update_TriggeringMethod\<close>: find the edges of the track between the previous and the
  current time (a buffer of 8 edges, threshold one half), handle each of them at its own
  time, and finally compute the joints at the current time.
\<close>

definition Update_TriggeringMethod ::
  "('a, 't, 'c, 'l) collaborators \<Rightarrow> ('a, 't, 'c, 'l) LoadSampleApplication
   \<Rightarrow> (bool \<times> ('a, 't, 'c, 'l) LoadSampleApplication) option" where
  "Update_TriggeringMethod env s =
     (case FloatTrackTriggeringJob_Run env (track s)
             (ctl_previous_time (controller s) / duration env (animation s))
             (ctl_time (controller s) / duration env (animation s))
             (1 / 2) 8 of
        None \<Rightarrow> Some (False, s)
      | Some edges \<Rightarrow>
          (case edges_loop env edges 0 s of
             None \<Rightarrow> None
           | Some (False, s1) \<Rightarrow> Some (False, s1)
           | Some (True, s1) \<Rightarrow>
               (case Update_Joints env (ctl_time (controller s1)) s1 of
                  (False, s2) \<Rightarrow> Some (False, s2)
                | (True, s2) \<Rightarrow> Some (True, s2))))"

text \<open>
  \<^verbatim>\<open>OnUpdate\<close>: advance the controller, update the attachment state with the
  selected method, then move the box with the joint if it is attached.
\<close>

definition OnUpdate ::
  "('a, 't, 'c, 'l) collaborators \<Rightarrow> float \<Rightarrow> ('a, 't, 'c, 'l) LoadSampleApplication
   \<Rightarrow> (bool \<times> ('a, 't, 'c, 'l) LoadSampleApplication) option" where
  "OnUpdate env dt s =
     (let s0 = s\<lparr>controller := controller_Update env (animation s) dt (controller s)\<rparr>
      in case (if reading_method s0 = 0 then Update_SamplingMethod env s0
               else Update_TriggeringMethod env s0) of
           None \<Rightarrow> None
         | Some (False, s1) \<Rightarrow> Some (False, s1)
         | Some (True, s1) \<Rightarrow>
             if attached s1
             then (case models_at_attach_joint s1 of
                     None \<Rightarrow> None
                   | Some m \<Rightarrow>
                       Some (True, s1\<lparr>box_world_transform := m * box_local_transform s1\<rparr>))
             else Some (True, s1))"

subsection \<open>Initialisation and the GUI\<close>

text \<open>
  \<^verbatim>\<open>std::strstr(haystack, needle)\<close> of the C library: the part of \<open>haystack\<close> that starts
  at the first occurrence of \<open>needle\<close>, or \<open>None\<close> for the null pointer when there is no
  occurrence.
\<close>

fun strstr :: "string \<Rightarrow> string \<Rightarrow> string option" where
  "strstr [] needle = (if needle = [] then Some [] else None)"
| "strstr (c # cs) needle =
     (if prefix needle (c # cs) then Some (c # cs) else strstr cs needle)"

text \<open>
  The loop of \<^verbatim>\<open>OnInitialize\<close> that looks for the joint to attach the box to, from index
  \<open>i\<close> on (the source starts it at 0); the result is the value of \<^verbatim>\<open>attach_joint_\<close>
  after the loop, \<open>aj\<close> being its value before.
\<close>

function find_attach_joint :: "Skeleton \<Rightarrow> int \<Rightarrow> int \<Rightarrow> int" where
  "find_attach_joint sk i aj =
     (if i < num_joints sk then
        (if strstr (joint_names sk ! nat i) ''thumb2'' \<noteq> None then i
         else find_attach_joint sk (i + 1) aj)
      else aj)"
  by pat_completeness auto
termination
  by (relation "measure (\<lambda>(sk, i, aj). nat (num_joints sk - i))") auto

declare find_attach_joint.simps [simp del]

text \<open>
  What \<^verbatim>\<open>OnInitialize\<close> gets from the framework: the result of each loader (\<open>None\<close> when
  it returns \<^verbatim>\<open>false\<close>), the contents of the freshly allocated, uninitialised buffer
  entries, and the new sampling cache for a number of joints.
\<close>

record ('a, 't, 'c, 'l) framework =
  LoadSkeleton :: "Skeleton option"
  LoadAnimation :: "'a option"
  LoadTrack :: "'t option"
  uninitialized_SoaTransform :: "nat \<Rightarrow> 'l"
  uninitialized_Float4x4 :: "nat \<Rightarrow> Float4x4"
  New_SamplingCache :: "int \<Rightarrow> 'c"

text \<open>
  \<^verbatim>\<open>OnInitialize\<close>. A loader that fails is taken to leave its output untouched.
  \<^verbatim>\<open>AllocateRange<T>(n)\<close> is a range of \<open>n\<close> entries.
\<close>

definition OnInitialize ::
  "('a, 't, 'c, 'l) framework \<Rightarrow> ('a, 't, 'c, 'l) LoadSampleApplication
   \<Rightarrow> bool \<times> ('a, 't, 'c, 'l) LoadSampleApplication" where
  "OnInitialize fw s =
     (case LoadSkeleton fw of
        None \<Rightarrow> (False, s)
      | Some sk \<Rightarrow>
          let s1 = s\<lparr>skeleton := sk\<rparr>;
              s2 = s1\<lparr>attach_joint := find_attach_joint (skeleton s1) 0 (attach_joint s1)\<rparr>
          in case LoadAnimation fw of
               None \<Rightarrow> (False, s2)
             | Some a \<Rightarrow>
                 let s3 = s2\<lparr>animation := a\<rparr>;
                     num_soa_joints = num_soa_joints (skeleton s3);
                     s4 = s3\<lparr>locals := map (uninitialized_SoaTransform fw)
                                         [0 ..< nat num_soa_joints]\<rparr>;
                     num_joints = num_joints (skeleton s4);
                     s5 = s4\<lparr>models := map (uninitialized_Float4x4 fw) [0 ..< nat num_joints]\<rparr>;
                     s6 = s5\<lparr>cache := Some (New_SamplingCache fw num_joints)\<rparr>
                 in case LoadTrack fw of
                      None \<Rightarrow> (False, s6)
                    | Some t \<Rightarrow> (True, s6\<lparr>track := t\<rparr>))"

text \<open>
  What \<^verbatim>\<open>OnGui\<close> gets from the GUI: the value of \<^verbatim>\<open>method_\<close> after the two radio
  buttons, whether one of them reported a change, and what the playback controls do to
  the controller.
\<close>

record gui =
  radio_method :: int
  radio_changed :: bool
  controller_OnGui :: "PlaybackController \<Rightarrow> PlaybackController"

definition OnGui ::
  "('a, 't, 'c, 'l) collaborators \<Rightarrow> gui \<Rightarrow> ('a, 't, 'c, 'l) LoadSampleApplication
   \<Rightarrow> bool \<times> ('a, 't, 'c, 'l) LoadSampleApplication" where
  "OnGui env g s =
     (let s1 = s\<lparr>reading_method := radio_method g\<rparr>;
          s2 = (if radio_changed g
                then s1\<lparr>controller := controller_set_time env 0 (controller s1),
                        attached := False,
                        box_local_transform := identity,
                        box_world_transform := Translation kBoxInitialPosition\<rparr>
                else s1)
      in (True, s2\<lparr>controller := controller_OnGui g (controller s2)\<rparr>))"

text \<open>
  The operations that the framework calls on an initialised application, and a run of
  them: \<open>None\<close> as soon as one of them reads outside \<^verbatim>\<open>models_\<close>. The \<^verbatim>\<open>bool\<close> results
  are dropped here (the framework stops at the first \<^verbatim>\<open>false\<close>, which only shortens
  the run).
\<close>

datatype operation = Update float | Gui gui

fun run ::
  "('a, 't, 'c, 'l) collaborators \<Rightarrow> operation list \<Rightarrow> ('a, 't, 'c, 'l) LoadSampleApplication
   \<Rightarrow> ('a, 't, 'c, 'l) LoadSampleApplication option" where
  "run env [] s = Some s"
| "run env (Update dt # ops) s =
     (case OnUpdate env dt s of None \<Rightarrow> None | Some (ok, s') \<Rightarrow> run env ops s')"
| "run env (Gui g # ops) s = run env ops (snd (OnGui env g s))"

subsection \<open>The edge-triggered policy in the words of the specification\<close>

text \<open>
  Policy B of the specification, step 3, for one edge: (a) set \<open>attached\<close> to the
  direction of the edge; (b) evaluate the pose at the exact edge time, the edge's ratio
  times the duration, and abort the step if that fails; (c) on a rising edge capture the
  local transform, the inverse of the joint's model matrix times the world transform,
  otherwise set the world transform to the joint's model matrix times the local
  transform.
\<close>

definition policyB_edge ::
  "('a, 't, 'c, 'l) collaborators \<Rightarrow> Edge \<Rightarrow> ('a, 't, 'c, 'l) LoadSampleApplication
   \<Rightarrow> (bool \<times> ('a, 't, 'c, 'l) LoadSampleApplication) option" where
  "policyB_edge env e s =
     (case Update_Joints env (time e * duration env (animation s)) (s\<lparr>attached := rising e\<rparr>) of
        (False, s') \<Rightarrow> Some (False, s')
      | (True, s') \<Rightarrow>
          (case models_at_attach_joint s' of
             None \<Rightarrow> None
           | Some m \<Rightarrow>
               Some (True,
                 if rising e
                 then s'\<lparr>box_local_transform := Invert m * box_world_transform s'\<rparr>
                 else s'\<lparr>box_world_transform := m * box_local_transform s'\<rparr>)))"

text \<open>Step 3 for the edges in the order in which they were returned; step 5: abort at the first failure.\<close>

fun policyB_edges ::
  "('a, 't, 'c, 'l) collaborators \<Rightarrow> Edge list \<Rightarrow> ('a, 't, 'c, 'l) LoadSampleApplication
   \<Rightarrow> (bool \<times> ('a, 't, 'c, 'l) LoadSampleApplication) option" where
  "policyB_edges env [] s = Some (True, s)"
| "policyB_edges env (e # es) s =
     (case policyB_edge env e s of
        None \<Rightarrow> None
      | Some (False, s') \<Rightarrow> Some (False, s')
      | Some (True, s') \<Rightarrow> policyB_edges env es s')"

text \<open>
  Steps 2 to 5: query the edges over the interval from the previous to the current time,
  both divided by the duration, with threshold one half; handle the edges; evaluate the
  pose once more at the current time.
\<close>

definition policyB ::
  "('a, 't, 'c, 'l) collaborators \<Rightarrow> ('a, 't, 'c, 'l) LoadSampleApplication
   \<Rightarrow> (bool \<times> ('a, 't, 'c, 'l) LoadSampleApplication) option" where
  "policyB env s =
     (case FloatTrackTriggeringJob_Run env (track s)
             (ctl_previous_time (controller s) / duration env (animation s))
             (ctl_time (controller s) / duration env (animation s)) (1 / 2) 8 of
        None \<Rightarrow> Some (False, s)
      | Some es \<Rightarrow>
          (case policyB_edges env es s of
             None \<Rightarrow> None
           | Some (False, s') \<Rightarrow> Some (False, s')
           | Some (True, s') \<Rightarrow> Some (Update_Joints env (ctl_time (controller s)) s')))"

subsection \<open>A concrete scene\<close>

text \<open>
  Collaborators to run the sample on. The animation lasts 10 seconds and moves every joint
  along the x axis, to \<open>x = t\<close> at time \<open>t\<close>; sampling fails at the times in \<open>bad\<close>. The
  track is the one of the specification's scenario: 0 up to ratio 0.4, a linear ramp up to
  1 at ratio 0.6, and 1 from there on, so that it crosses the threshold once, upwards, at
  ratio 0.5; the edge is reported for an interval that contains 0.5 but does not start
  there. The controller adds \<open>dt\<close> to the time. A local transform is just the time sampled.
\<close>

definition scene :: "float list \<Rightarrow> (unit, unit, unit, float) collaborators" where
  "scene bad =
     \<lparr>duration = (\<lambda>a. 10),
      controller_Update = (\<lambda>a dt c. \<lparr>ctl_time = ctl_time c + dt, ctl_previous_time = ctl_time c\<rparr>),
      controller_set_time = (\<lambda>t c. \<lparr>ctl_time = t, ctl_previous_time = t\<rparr>),
      SamplingJob_Run = (\<lambda>a c t out. if t \<in> set bad then (False, c, out)
                                        else (True, c, map (\<lambda>x. t) out)),
      LocalToModelJob_Run = (\<lambda>sk inp out.
         case inp of [] \<Rightarrow> (False, out)
         | t # ts \<Rightarrow> (True, map (\<lambda>m. Translation (t, 0, 0, 0)) out)),
      FloatTrackSamplingJob_Run = (\<lambda>tr r.
         Some (if r \<le> 2 / 5 then 0 else if r < 3 / 5 then (r - 2 / 5) * 5 else 1)),
      FloatTrackTriggeringJob_Run = (\<lambda>tr from to threshold n.
         Some (if from < 1 / 2 \<and> 1 / 2 \<le> to then [\<lparr>time = 1 / 2, rising = True\<rparr>] else []))\<rparr>"

text \<open>A framework that loads a skeleton with the given joint names.\<close>

definition scene_framework :: "string list \<Rightarrow> (unit, unit, unit, float) framework" where
  "scene_framework names =
     \<lparr>LoadSkeleton = Some \<lparr>joint_names = names\<rparr>,
      LoadAnimation = Some (),
      LoadTrack = Some (),
      uninitialized_SoaTransform = (\<lambda>i. 0),
      uninitialized_Float4x4 = (\<lambda>i. identity),
      New_SamplingCache = (\<lambda>n. ())\<rparr>"

text \<open>The application after construction and initialisation on a hand of three joints.\<close>

definition scene_app :: "(unit, unit, unit, float) LoadSampleApplication" where
  "scene_app =
     snd (OnInitialize (scene_framework [''wrist'', ''thumb1'', ''thumb2''])
            (LoadSampleApplication_ctor \<lparr>ctl_time = 0, ctl_previous_time = 0\<rparr> () ()))"

text \<open>The same application once the controller has moved on to time \<open>t\<close>.\<close>

definition scene_app_at :: "float \<Rightarrow> (unit, unit, unit, float) LoadSampleApplication" where
  "scene_app_at t = scene_app\<lparr>controller := \<lparr>ctl_time = t, ctl_previous_time = 0\<rparr>\<rparr>"

text \<open>The same collaborators with a track whose triggering job always fails.\<close>

definition scene_without_track :: "(unit, unit, unit, float) collaborators" where
  "scene_without_track = (scene [])\<lparr>FloatTrackTriggeringJob_Run := (\<lambda>tr from to threshold n. None)\<rparr>"

text \<open>The model matrices of the three joints of the scene at time \<open>t\<close>.\<close>

definition scene_pose :: "float \<Rightarrow> Float4x4 list" where
  "scene_pose t = [Translation (t, 0, 0, 0), Translation (t, 0, 0, 0), Translation (t, 0, 0, 0)]"

text \<open>
  The same collaborators with another track: a pulse that rises through the threshold at
  ratio 1/4 and falls through it at ratio 1/2. The triggering job reports the edges after
  \<open>from\<close> and up to \<open>to\<close>.
\<close>

definition scene_pulse :: "float list \<Rightarrow> (unit, unit, unit, float) collaborators" where
  "scene_pulse bad =
     (scene bad)\<lparr>FloatTrackTriggeringJob_Run := (\<lambda>tr from to threshold n.
        Some (filter (\<lambda>e. from < time e \<and> time e \<le> to)
                [\<lparr>time = 1 / 4, rising = True\<rparr>, \<lparr>time = 1 / 2, rising = False\<rparr>]))\<rparr>"

text \<open>Where the pulse is above the threshold.\<close>

definition pulse_high :: "float \<Rightarrow> bool" where
  "pulse_high r \<longleftrightarrow> 1 / 4 \<le> r \<and> r < 1 / 2"

text \<open>
  The application after one step of 3 seconds with the pulse: the box has been attached at
  2.5 seconds and is carried by the joint.
\<close>

definition scene_app_carried :: "(unit, unit, unit, float) LoadSampleApplication" where
  "scene_app_carried =
     scene_app\<lparr>controller := \<lparr>ctl_time = 3, ctl_previous_time = 0\<rparr>,
       locals := [3], models := scene_pose 3, attached := True,
       box_world_transform := Translation (1 / 2, 1 / 10, 3 / 10, 0),
       box_local_transform := Translation (- (5 / 2), 1 / 10, 3 / 10, 0)\<rparr>"

text \<open>
  Inside a step to 8 seconds with the pulse, the state after the rising edge at 2.5
  seconds has been handled.
\<close>

definition scene_app_risen :: "(unit, unit, unit, float) LoadSampleApplication" where
  "scene_app_risen =
     (scene_app_at 8)\<lparr>locals := [5 / 2], models := scene_pose (5 / 2), attached := True,
       box_local_transform := Translation (- (5 / 2), 1 / 10, 3 / 10, 0)\<rparr>"

text \<open>
  Inside a step to 8 seconds with the first track, the state after the rising edge at 5
  seconds has been handled and before the final evaluation.
\<close>

definition scene_app_attached :: "(unit, unit, unit, float) LoadSampleApplication" where
  "scene_app_attached =
     (scene_app_at 8)\<lparr>locals := [5], models := scene_pose 5, attached := True,
       box_local_transform := Translation (- 5, 1 / 10, 3 / 10, 0)\<rparr>"

text \<open>The application with the clock standing still at 8 seconds.\<close>

definition scene_app_still :: "(unit, unit, unit, float) LoadSampleApplication" where
  "scene_app_still = scene_app\<lparr>controller := \<lparr>ctl_time = 8, ctl_previous_time = 8\<rparr>\<rparr>"

subsection \<open>What the theorems say about the application and ask of the collaborators\<close>

text \<open>
  The index \<^verbatim>\<open>attach_joint_\<close> is a joint of the skeleton, and \<^verbatim>\<open>models_\<close> has one entry
  for each joint.
\<close>

definition attach_joint_in_range :: "('a, 't, 'c, 'l) LoadSampleApplication \<Rightarrow> bool" where
  "attach_joint_in_range s \<longleftrightarrow>
     0 \<le> attach_joint s \<and> attach_joint s < num_joints (skeleton s)
     \<and> int (length (models s)) = num_joints (skeleton s)"

text \<open>Two states with the same joint index, the same skeleton and as many model matrices.\<close>

definition same_attachment ::
  "('a, 't, 'c, 'l) LoadSampleApplication \<Rightarrow> ('a, 't, 'c, 'l) LoadSampleApplication \<Rightarrow> bool" where
  "same_attachment s s' \<longleftrightarrow>
     attach_joint s' = attach_joint s \<and> skeleton s' = skeleton s
     \<and> length (models s') = length (models s)"

text \<open>
  The local-to-model job writes into the range that it is given: a C++ range has a fixed
  size, so the buffer is as long after the job as before.
\<close>

definition writes_in_place :: "('a, 't, 'c, 'l) collaborators \<Rightarrow> bool" where
  "writes_in_place env \<longleftrightarrow>
     (\<forall>sk inp out. length (snd (LocalToModelJob_Run env sk inp out)) = length out)"

text \<open>
  The clock of the specification, policy B step 1: the previous time becomes the current
  time, then \<open>dt\<close> is added to the current time.
\<close>

definition clock_advances :: "('a, 't, 'c, 'l) collaborators \<Rightarrow> bool" where
  "clock_advances env \<longleftrightarrow>
     (\<forall>a dt c. controller_Update env a dt c =
                 \<lparr>ctl_time = ctl_time c + dt, ctl_previous_time = ctl_time c\<rparr>)"

text \<open>What stays the same during a session: the loaded data, the method, the joint and the sizes of the buffers.\<close>

definition session_data ::
  "('a, 't, 'c, 'l) LoadSampleApplication \<Rightarrow> Skeleton \<times> 'a \<times> 't \<times> int \<times> int \<times> nat \<times> nat" where
  "session_data s =
     (skeleton s, animation s, track s, reading_method s, attach_joint s,
      length (locals s), length (models s))"

text \<open>
  The pose evaluator of the specification (section 4.2): in the session of \<open>s0\<close>, computing
  the joints at time \<open>t\<close> succeeds and yields the model matrices \<open>M t\<close>, whatever the
  cache and the buffers hold.
\<close>

definition evaluates_pose ::
  "('a, 't, 'c, 'l) collaborators \<Rightarrow> ('a, 't, 'c, 'l) LoadSampleApplication
   \<Rightarrow> (float \<Rightarrow> Float4x4 list) \<Rightarrow> bool" where
  "evaluates_pose env s0 M \<longleftrightarrow>
     (\<forall>t s. session_data s = session_data s0 \<longrightarrow>
        fst (Update_Joints env t s)
        \<and> models (snd (Update_Joints env t s)) = M t
        \<and> length (locals (snd (Update_Joints env t s))) = length (locals s0)
        \<and> length (M t) = length (models s0))"

text \<open>Two consecutive calls of \<^verbatim>\<open>OnUpdate\<close> with the same \<open>dt\<close>; the second one only if the first returns \<^verbatim>\<open>true\<close>.\<close>

definition two_steps ::
  "('a, 't, 'c, 'l) collaborators \<Rightarrow> float \<Rightarrow> ('a, 't, 'c, 'l) LoadSampleApplication
   \<Rightarrow> (bool \<times> ('a, 't, 'c, 'l) LoadSampleApplication) option" where
  "two_steps env dt s =
     (case OnUpdate env dt s of
        None \<Rightarrow> None
      | Some (False, s1) \<Rightarrow> Some (False, s1)
      | Some (True, s1) \<Rightarrow> OnUpdate env dt s1)"

text \<open>The result of a step, the attached flag and the two transforms of the box after it.\<close>

definition box_after ::
  "(bool \<times> ('a, 't, 'c, 'l) LoadSampleApplication) option
   \<Rightarrow> (bool \<times> bool \<times> Float4x4 \<times> Float4x4) option" where
  "box_after r =
     (case r of
        None \<Rightarrow> None
      | Some (ok, s) \<Rightarrow> Some (ok, attached s, box_local_transform s, box_world_transform s))"

text \<open>
  The edge detector of the specification (section 4.1) reports the crossings of the
  threshold: each edge changes the side of the threshold the track is on, a rising edge
  from below to above, any other edge from above to below. \<open>side_after b es\<close> is the
  side after the edges \<open>es\<close> when the track starts on side \<open>b\<close> (above is \<open>True\<close>),
  and \<open>None\<close> when one of the edges does not change the side.
\<close>

fun side_after :: "bool \<Rightarrow> Edge list \<Rightarrow> bool option" where
  "side_after b [] = Some b"
| "side_after b (e # es) = (if rising e = b then None else side_after (rising e) es)"

text \<open>
  The triggering job reports the crossings of the track \<open>tr\<close>, which is above the
  threshold where \<open>high\<close> holds: the edges it finds between \<open>from\<close> and a later \<open>to\<close>
  lead from the side at \<open>from\<close> to the side at \<open>to\<close>.
\<close>

definition reports_crossings ::
  "('a, 't, 'c, 'l) collaborators \<Rightarrow> 't \<Rightarrow> (float \<Rightarrow> bool) \<Rightarrow> bool" where
  "reports_crossings env tr high \<longleftrightarrow>
     (\<forall>from to es. from \<le> to \<longrightarrow>
        FloatTrackTriggeringJob_Run env tr from to (1 / 2) 8 = Some es \<longrightarrow>
        side_after (high from) es = Some (high to))"

text \<open>
  The application after a sequence of calls of \<^verbatim>\<open>OnUpdate\<close>, each with a \<open>dt\<close> that is not
  negative and each returning \<^verbatim>\<open>true\<close>; \<open>None\<close> for any other sequence.
\<close>

fun forward_run ::
  "('a, 't, 'c, 'l) collaborators \<Rightarrow> float list \<Rightarrow> ('a, 't, 'c, 'l) LoadSampleApplication
   \<Rightarrow> ('a, 't, 'c, 'l) LoadSampleApplication option" where
  "forward_run env [] s = Some s"
| "forward_run env (dt # dts) s =
     (if dt < 0 then None
      else (case OnUpdate env dt s of
              None \<Rightarrow> None
            | Some (False, s') \<Rightarrow> None
            | Some (True, s') \<Rightarrow> forward_run env dts s'))"

subsection \<open>Facts about the matrices\<close>

lemma mul4x4_assoc: "mul4x4 (mul4x4 a b) c = mul4x4 a (mul4x4 b c)"
  by (cases a; cases b; cases c) (simp add: algebra_simps)

lemma mul4x4_adjugate: "mul4x4 m (adjugate m) = scale4x4 (det4x4 m) identity"
  by (cases m) (simp add: identity_def det3_def algebra_simps)

lemma mul4x4_scale4x4: "mul4x4 a (scale4x4 k b) = scale4x4 k (mul4x4 a b)"
  by (cases a; cases b) (simp add: algebra_simps)

lemma scale4x4_scale4x4: "scale4x4 k (scale4x4 l a) = scale4x4 (k * l) a"
  by (cases a) (simp add: algebra_simps)

lemma scale4x4_one: "scale4x4 1 a = a"
  by (cases a) simp

lemma mul4x4_identity_left: "mul4x4 identity a = a"
  by (cases a) (simp add: identity_def)

lemma mul4x4_Invert: "det4x4 m \<noteq> 0 \<Longrightarrow> mul4x4 m (Invert m) = identity"
  by (simp add: Invert_def mul4x4_scale4x4 mul4x4_adjugate scale4x4_scale4x4 scale4x4_one)

lemma Invert_Translation: "Invert (Translation (x, y, z, w)) = Translation (- x, - y, - z, 0)"
  by (simp add: Invert_def det3_def)

lemma Translation_times:
  "Translation (x, y, z, w) * Translation (x', y', z', w') = Translation (x + x', y + y', z + z', 0)"
  by (simp add: times_Float4x4_def)

text \<open>
  C8. Attach/detach round trip: for every world transform \<open>W\<close> and every invertible joint
  matrix \<open>M\<close>, the local transform computed on attach, \<open>Invert M * W\<close>, is taken back to
  \<open>W\<close> by the product computed on detach, \<open>M * local\<close>, in exact arithmetic.
\<close>

theorem attach_detach_round_trip:
  assumes "det4x4 M \<noteq> 0" and "local = Invert M * W"
  shows "M * local = W"
  using assms
  by (simp add: times_Float4x4_def mul4x4_assoc [symmetric] mul4x4_Invert mul4x4_identity_left)

theorem attach_detach_round_trip_witness:
  "det4x4 (Translation (1, 2, 3, 0)) \<noteq> 0
   \<and> Translation (1, 2, 3, 0) * (Invert (Translation (1, 2, 3, 0)) * Translation kBoxInitialPosition)
     = Translation kBoxInitialPosition"
proof -
  have d: "det4x4 (Translation (1, 2, 3, 0)) \<noteq> 0"
    by (simp add: det3_def)
  show ?thesis
    using d attach_detach_round_trip [OF d refl, of "Translation kBoxInitialPosition"]
    by simp
qed

subsection \<open>Running the concrete scene\<close>

lemma scene_simps:
  "duration (scene bad) a = 10"
  "controller_Update (scene bad) a dt c = \<lparr>ctl_time = ctl_time c + dt, ctl_previous_time = ctl_time c\<rparr>"
  "SamplingJob_Run (scene bad) a ca t out =
     (if t \<in> set bad then (False, ca, out) else (True, ca, map (\<lambda>x. t) out))"
  "LocalToModelJob_Run (scene bad) sk inp mo =
     (case inp of [] \<Rightarrow> (False, mo) | x # xs \<Rightarrow> (True, map (\<lambda>m. Translation (x, 0, 0, 0)) mo))"
  "FloatTrackSamplingJob_Run (scene bad) tr r =
     Some (if r \<le> 2 / 5 then 0 else if r < 3 / 5 then (r - 2 / 5) * 5 else 1)"
  "FloatTrackTriggeringJob_Run (scene bad) tr from to threshold n =
     Some (if from < 1 / 2 \<and> 1 / 2 \<le> to then [\<lparr>time = 1 / 2, rising = True\<rparr>] else [])"
  by (simp_all add: scene_def)

lemma scene_app_eq:
  "scene_app =
     \<lparr>controller = \<lparr>ctl_time = 0, ctl_previous_time = 0\<rparr>,
      skeleton = \<lparr>joint_names = [''wrist'', ''thumb1'', ''thumb2'']\<rparr>,
      animation = (), cache = Some (), locals = [0],
      models = [identity, identity, identity],
      track = (), reading_method = 1, attached = False, attach_joint = 2,
      box_world_transform = Translation kBoxInitialPosition,
      box_local_transform = identity\<rparr>"
  by (simp add: scene_app_def OnInitialize_def scene_framework_def
      LoadSampleApplication_ctor_def find_attach_joint.simps num_joints_def num_soa_joints_def
      upt_rec)

lemmas scene_run =
  OnUpdate_def Update_TriggeringMethod_def edges_loop.simps Update_Joints_def scene_simps
  scene_app_eq scene_app_at_def models_at_attach_joint_def kBoxInitialPosition_def
  Invert_Translation Translation_times

lemma writes_in_place_scene: "writes_in_place (scene bad)"
  by (simp add: writes_in_place_def scene_simps split: list.splits)

lemma evaluates_pose_scene:
  fixes s0 :: "(unit, unit, unit, float) LoadSampleApplication"
  assumes "length (locals s0) = 1" "length (models s0) = 3"
  shows "evaluates_pose (scene []) s0 scene_pose"
proof -
  have "fst (Update_Joints (scene []) t s)
        \<and> models (snd (Update_Joints (scene []) t s)) = scene_pose t
        \<and> length (locals (snd (Update_Joints (scene []) t s))) = 1"
    if "length (locals s) = 1" "length (models s) = 3"
    for t and s :: "(unit, unit, unit, float) LoadSampleApplication"
  proof -
    from that obtain x where l: "locals s = [x]"
      by (cases "locals s") simp_all
    from that obtain m1 m2 m3 where m: "models s = [m1, m2, m3]"
      by (auto simp: numeral_3_eq_3 length_Suc_conv)
    show ?thesis
      by (simp add: Update_Joints_def scene_simps scene_pose_def l m del: Translation.simps)
  qed
  with assms show ?thesis
    by (simp add: evaluates_pose_def session_data_def scene_pose_def)
qed

lemma scene_pulse_simps:
  "duration (scene_pulse bad) a = 10"
  "controller_Update (scene_pulse bad) a dt c = \<lparr>ctl_time = ctl_time c + dt, ctl_previous_time = ctl_time c\<rparr>"
  "SamplingJob_Run (scene_pulse bad) a ca t out =
     (if t \<in> set bad then (False, ca, out) else (True, ca, map (\<lambda>x. t) out))"
  "LocalToModelJob_Run (scene_pulse bad) sk inp mo =
     (case inp of [] \<Rightarrow> (False, mo) | x # xs \<Rightarrow> (True, map (\<lambda>m. Translation (x, 0, 0, 0)) mo))"
  "FloatTrackTriggeringJob_Run (scene_pulse bad) tr from to threshold n =
     Some (filter (\<lambda>e. from < time e \<and> time e \<le> to)
             [\<lparr>time = 1 / 4, rising = True\<rparr>, \<lparr>time = 1 / 2, rising = False\<rparr>])"
  by (simp_all add: scene_pulse_def scene_def)

lemma clock_advances_scene_pulse: "clock_advances (scene_pulse bad)"
  by (simp add: clock_advances_def scene_pulse_simps)

lemma Update_Joints_scene_pulse:
  "Update_Joints (scene_pulse bad) t s = Update_Joints (scene bad) t s"
  by (simp add: Update_Joints_def scene_pulse_simps scene_simps)

lemma evaluates_pose_scene_pulse:
  fixes s0 :: "(unit, unit, unit, float) LoadSampleApplication"
  assumes "length (locals s0) = 1" "length (models s0) = 3"
  shows "evaluates_pose (scene_pulse []) s0 scene_pose"
  using evaluates_pose_scene [OF assms]
  by (simp add: evaluates_pose_def Update_Joints_scene_pulse)

lemma reports_crossings_scene_pulse: "reports_crossings (scene_pulse bad) () pulse_high"
  by (auto simp: reports_crossings_def scene_pulse_simps pulse_high_def split: if_splits)

lemmas scene_pulse_run =
  OnUpdate_def Update_TriggeringMethod_def edges_loop.simps Update_Joints_def scene_pulse_simps
  scene_app_eq scene_app_at_def models_at_attach_joint_def kBoxInitialPosition_def
  Invert_Translation Translation_times

lemmas scene_pulse_steps = two_steps_def box_after_def scene_pulse_run

subsection \<open>What a pose evaluation and an edge leave alone\<close>

lemma Update_Joints_frame:
  "controller (snd (Update_Joints env t s)) = controller s"
  "skeleton (snd (Update_Joints env t s)) = skeleton s"
  "animation (snd (Update_Joints env t s)) = animation s"
  "track (snd (Update_Joints env t s)) = track s"
  "reading_method (snd (Update_Joints env t s)) = reading_method s"
  "attached (snd (Update_Joints env t s)) = attached s"
  "attach_joint (snd (Update_Joints env t s)) = attach_joint s"
  "box_world_transform (snd (Update_Joints env t s)) = box_world_transform s"
  "box_local_transform (snd (Update_Joints env t s)) = box_local_transform s"
  by (simp_all add: Update_Joints_def Let_def split: prod.splits)

lemma Update_Joints_frame_eq:
  assumes "Update_Joints env t s = (ok, s')"
  shows "controller s' = controller s" and "skeleton s' = skeleton s"
    and "animation s' = animation s" and "track s' = track s" and "reading_method s' = reading_method s"
    and "attached s' = attached s" and "attach_joint s' = attach_joint s"
    and "box_world_transform s' = box_world_transform s"
    and "box_local_transform s' = box_local_transform s"
  using Update_Joints_frame [of env t s] assms by simp_all

lemma policyB_edge_frame:
  assumes "policyB_edge env e s = Some (ok, s')"
  shows "controller s' = controller s" and "skeleton s' = skeleton s"
    and "animation s' = animation s" and "track s' = track s" and "reading_method s' = reading_method s"
    and "attach_joint s' = attach_joint s"
  using assms
  by (auto simp: policyB_edge_def split: prod.splits bool.splits option.splits if_splits
      dest: Update_Joints_frame_eq)

lemma policyB_edges_frame:
  assumes "policyB_edges env es s = Some (ok, s')"
  shows "controller s' = controller s \<and> skeleton s' = skeleton s
    \<and> animation s' = animation s \<and> track s' = track s \<and> reading_method s' = reading_method s
    \<and> attach_joint s' = attach_joint s"
  using assms
proof (induction es arbitrary: s)
  case Nil
  then show ?case by simp
next
  case (Cons e es)
  show ?case
  proof (cases "policyB_edge env e s")
    case None
    with Cons.prems show ?thesis by simp
  next
    case (Some r)
    obtain ok1 s1 where r: "r = (ok1, s1)" by (cases r)
    note fr = policyB_edge_frame [OF Some [unfolded r]]
    show ?thesis
    proof (cases ok1)
      case True
      with Cons.prems Some r have "policyB_edges env es s1 = Some (ok, s')" by simp
      from Cons.IH [OF this] fr show ?thesis by simp
    next
      case False
      with Cons.prems Some r have "s' = s1" by simp
      with fr show ?thesis by simp
    qed
  qed
qed

subsection \<open>The loop over the edges\<close>

lemma edges_loop_body:
  "i < length edges \<Longrightarrow>
   edges_loop env edges i s =
     (case policyB_edge env (edges ! i) s of
        None \<Rightarrow> None
      | Some (False, s') \<Rightarrow> Some (False, s')
      | Some (True, s') \<Rightarrow> edges_loop env edges (i + 1) s')"
  by (subst edges_loop.simps)
     (simp add: policyB_edge_def Let_def split: prod.splits bool.splits option.splits)

lemma edges_loop_drop: "edges_loop env edges i s = policyB_edges env (drop i edges) s"
proof (induction "length edges - i" arbitrary: i s)
  case 0
  then show ?case by (subst edges_loop.simps) simp
next
  case (Suc n)
  then have lt: "i < length edges" and n: "n = length edges - (i + 1)" by simp_all
  have d: "drop i edges = edges ! i # drop (i + 1) edges"
    using lt by (simp add: Cons_nth_drop_Suc)
  have IH: "edges_loop env edges (i + 1) s1 = policyB_edges env (drop (i + 1) edges) s1" for s1
    using Suc.hyps(1) [OF n] by simp
  show ?case
    unfolding edges_loop_body [OF lt] d
    using IH by (simp split: option.splits prod.splits bool.splits)
qed

lemma policyB_edges_Nil_loop: "edges_loop env [] 0 s = Some (True, s)"
  by (simp add: edges_loop_drop)

lemma policyB_edges_append:
  "policyB_edges env (xs @ ys) s =
     (case policyB_edges env xs s of
        None \<Rightarrow> None
      | Some (False, s') \<Rightarrow> Some (False, s')
      | Some (True, s') \<Rightarrow> policyB_edges env ys s')"
  by (induction xs arbitrary: s) (simp_all split: option.splits prod.splits bool.splits)

lemma Update_TriggeringMethod_policyB: "Update_TriggeringMethod env s = policyB env s"
proof (cases "FloatTrackTriggeringJob_Run env (track s)
             (ctl_previous_time (controller s) / duration env (animation s))
             (ctl_time (controller s) / duration env (animation s)) (1 / 2) 8")
  case None
  then show ?thesis by (simp add: Update_TriggeringMethod_def policyB_def)
next
  case (Some es)
  have loop: "edges_loop env es 0 s = policyB_edges env es s"
    by (simp add: edges_loop_drop)
  show ?thesis
  proof (cases "policyB_edges env es s")
    case None
    with Some loop show ?thesis by (simp add: Update_TriggeringMethod_def policyB_def)
  next
    case r: (Some r)
    obtain ok s1 where [simp]: "r = (ok, s1)" by (cases r)
    from policyB_edges_frame [OF r [simplified]] have "controller s1 = controller s" by simp
    with Some loop r show ?thesis
      by (simp add: Update_TriggeringMethod_def policyB_def split: prod.splits bool.splits)
  qed
qed

text \<open>
  C2. Policy B, edge by edge: in every step of the edge-triggered policy the edges are
  queried between the previous and the current time, both divided by the duration, with
  threshold one half; then, for each edge in the order returned, the flag becomes the
  direction of the edge, the pose is evaluated at the edge's ratio times the duration, and
  a rising edge sets the local transform to the inverse of the joint's model matrix times
  the world transform, any other edge sets the world transform to the joint's model matrix
  times the local transform. That is what \<open>policyB\<close> does, and the function of the source
  computes the same result in every state.
\<close>

theorem Update_TriggeringMethod_is_policyB:
  assumes "duration env (animation s) \<noteq> 0"
  shows "Update_TriggeringMethod env s = policyB env s"
proof (cases "FloatTrackTriggeringJob_Run env (track s)
             (ctl_previous_time (controller s) / duration env (animation s))
             (ctl_time (controller s) / duration env (animation s)) (1 / 2) 8")
  case None
  then show ?thesis by (simp add: Update_TriggeringMethod_def policyB_def)
next
  case (Some es)
  have loop: "edges_loop env es 0 s = policyB_edges env es s"
    by (simp add: edges_loop_drop)
  show ?thesis
  proof (cases "policyB_edges env es s")
    case None
    with Some loop show ?thesis by (simp add: Update_TriggeringMethod_def policyB_def)
  next
    case r: (Some r)
    obtain ok s1 where [simp]: "r = (ok, s1)" by (cases r)
    from policyB_edges_frame [OF r [simplified]] have "controller s1 = controller s" by simp
    with Some loop r show ?thesis
      by (simp add: Update_TriggeringMethod_def policyB_def split: prod.splits bool.splits)
  qed
qed

theorem Update_TriggeringMethod_is_policyB_witness:
  "duration (scene []) (animation (scene_app_at 8)) \<noteq> 0
   \<and> Update_TriggeringMethod (scene []) (scene_app_at 8) = policyB (scene []) (scene_app_at 8)
   \<and> policyB (scene []) (scene_app_at 8) =
       Some (True, (scene_app_at 8)\<lparr>locals := [8], models := scene_pose 8, attached := True,
         box_local_transform := Translation (- 5, 1 / 10, 3 / 10, 0)\<rparr>)"
proof -
  have "Update_TriggeringMethod (scene []) (scene_app_at 8) =
       Some (True, (scene_app_at 8)\<lparr>locals := [8], models := scene_pose 8, attached := True,
         box_local_transform := Translation (- 5, 1 / 10, 3 / 10, 0)\<rparr>)"
    by (simp add: scene_run scene_pose_def del: Translation.simps)
  moreover have d: "duration (scene []) (animation (scene_app_at 8)) \<noteq> 0"
    by (simp add: scene_simps)
  ultimately show ?thesis
    using Update_TriggeringMethod_is_policyB [OF d] by simp
qed

subsection \<open>The final evaluation\<close>

lemma Update_TriggeringMethod_success:
  assumes ok: "Update_TriggeringMethod env s = Some (True, s')"
  shows "\<exists>edges s1.
         FloatTrackTriggeringJob_Run env (track s)
           (ctl_previous_time (controller s) / duration env (animation s))
           (ctl_time (controller s) / duration env (animation s)) (1 / 2) 8 = Some edges
       \<and> edges_loop env edges 0 s = Some (True, s1)
       \<and> Update_Joints env (ctl_time (controller s)) s1 = (True, s')"
proof -
  let ?q = "FloatTrackTriggeringJob_Run env (track s)
           (ctl_previous_time (controller s) / duration env (animation s))
           (ctl_time (controller s) / duration env (animation s)) (1 / 2) 8"
  from ok obtain edges where q: "?q = Some edges"
    by (auto simp: Update_TriggeringMethod_def split: option.splits)
  from ok q obtain s1 where loop: "edges_loop env edges 0 s = Some (True, s1)"
    by (auto simp: Update_TriggeringMethod_def split: option.splits bool.splits prod.splits)
  then have "policyB_edges env edges s = Some (True, s1)"
    by (simp add: edges_loop_drop)
  from policyB_edges_frame [OF this] have c: "controller s1 = controller s" by simp
  from ok q loop c have "Update_Joints env (ctl_time (controller s)) s1 = (True, s')"
    by (auto simp: Update_TriggeringMethod_def split: bool.splits prod.splits)
  with q loop show ?thesis
    by blast
qed

lemma Update_Joints_jobs:
  assumes "SamplingJob_Run env (animation s) (cache s) t (locals s) = (ok1, cache', locals')"
    and "LocalToModelJob_Run env (skeleton s) locals' (models s) = (ok2, models')"
  shows "Update_Joints env t s =
           (if ok1 then (ok2, s\<lparr>cache := cache', locals := locals', models := models'\<rparr>)
            else (False, s\<lparr>cache := cache', locals := locals'\<rparr>))"
  using assms by (simp add: Update_Joints_def Let_def)

lemma Update_TriggeringMethod_no_edge:
  assumes "FloatTrackTriggeringJob_Run env (track s)
         (ctl_previous_time (controller s) / duration env (animation s))
         (ctl_time (controller s) / duration env (animation s)) (1 / 2) 8 = Some []"
  shows "\<exists>ok1 cache' locals' ok2 models' r.
          SamplingJob_Run env (animation s) (cache s) (ctl_time (controller s)) (locals s)
            = (ok1, cache', locals')
        \<and> LocalToModelJob_Run env (skeleton s) locals' (models s) = (ok2, models')
        \<and> Update_TriggeringMethod env s = Some r
        \<and> r = (if ok1 then (ok2, s\<lparr>cache := cache', locals := locals', models := models'\<rparr>)
                 else (False, s\<lparr>cache := cache', locals := locals'\<rparr>))
        \<and> attached (snd r) = attached s
        \<and> box_local_transform (snd r) = box_local_transform s
        \<and> box_world_transform (snd r) = box_world_transform s"
proof -
  obtain ok1 cache' locals' where
    sj: "SamplingJob_Run env (animation s) (cache s) (ctl_time (controller s)) (locals s)
            = (ok1, cache', locals')"
    by (cases "SamplingJob_Run env (animation s) (cache s) (ctl_time (controller s)) (locals s)")
  obtain ok2 models' where
    lj: "LocalToModelJob_Run env (skeleton s) locals' (models s) = (ok2, models')"
    by (cases "LocalToModelJob_Run env (skeleton s) locals' (models s)")
  let ?r = "if ok1 then (ok2, s\<lparr>cache := cache', locals := locals', models := models'\<rparr>)
            else (False, s\<lparr>cache := cache', locals := locals'\<rparr>)"
  have uj: "Update_Joints env (ctl_time (controller s)) s = ?r"
    using sj lj by (rule Update_Joints_jobs)
  have "Update_TriggeringMethod env s = Some ?r"
    using assms uj
    by (simp add: Update_TriggeringMethod_def policyB_edges_Nil_loop split: prod.splits bool.splits)
  moreover have "attached (snd ?r) = attached s"
    "box_local_transform (snd ?r) = box_local_transform s"
    "box_world_transform (snd ?r) = box_world_transform s"
    by simp_all
  ultimately show ?thesis using sj lj by blast
qed

text \<open>
  C3. Final evaluation of policy B: a successful step ends with an evaluation of the pose
  at the current time, that is, the sampling job run at the current time and then the
  local-to-model job, both on the buffers that the loop over the edges leaves, and both
  successful; the result of the step is the state after the loop with the cache and the
  two buffers as the jobs wrote them. With no edge at all the step is that evaluation,
  successful or not, and nothing else. In particular, when the previous and the current
  time coincide and the edge detector reports no edge for an empty interval, the step only
  evaluates the pose: flag, local and world transform keep their values.
\<close>

theorem final_pose_evaluation:
  assumes "duration env (animation s) \<noteq> 0"
  shows
  "(Update_TriggeringMethod env s = Some (True, s') \<longrightarrow>
      (\<exists>edges s1 cache' locals' models'.
         FloatTrackTriggeringJob_Run env (track s)
           (ctl_previous_time (controller s) / duration env (animation s))
           (ctl_time (controller s) / duration env (animation s)) (1 / 2) 8 = Some edges
       \<and> edges_loop env edges 0 s = Some (True, s1)
       \<and> SamplingJob_Run env (animation s) (cache s1) (ctl_time (controller s)) (locals s1)
           = (True, cache', locals')
       \<and> LocalToModelJob_Run env (skeleton s) locals' (models s1) = (True, models')
       \<and> s' = s1\<lparr>cache := cache', locals := locals', models := models'\<rparr>))
   \<and> (FloatTrackTriggeringJob_Run env (track s)
         (ctl_previous_time (controller s) / duration env (animation s))
         (ctl_time (controller s) / duration env (animation s)) (1 / 2) 8 = Some [] \<longrightarrow>
       (\<exists>ok1 cache' locals' ok2 models' r.
          SamplingJob_Run env (animation s) (cache s) (ctl_time (controller s)) (locals s)
            = (ok1, cache', locals')
        \<and> LocalToModelJob_Run env (skeleton s) locals' (models s) = (ok2, models')
        \<and> Update_TriggeringMethod env s = Some r
        \<and> r = (if ok1 then (ok2, s\<lparr>cache := cache', locals := locals', models := models'\<rparr>)
                 else (False, s\<lparr>cache := cache', locals := locals'\<rparr>))
        \<and> attached (snd r) = attached s
        \<and> box_local_transform (snd r) = box_local_transform s
        \<and> box_world_transform (snd r) = box_world_transform s))
   \<and> (ctl_previous_time (controller s) = ctl_time (controller s)
        \<and> (\<forall>r. FloatTrackTriggeringJob_Run env (track s) r r (1 / 2) 8 = Some []) \<longrightarrow>
       (\<exists>ok1 cache' locals' ok2 models' r.
          SamplingJob_Run env (animation s) (cache s) (ctl_time (controller s)) (locals s)
            = (ok1, cache', locals')
        \<and> LocalToModelJob_Run env (skeleton s) locals' (models s) = (ok2, models')
        \<and> Update_TriggeringMethod env s = Some r
        \<and> r = (if ok1 then (ok2, s\<lparr>cache := cache', locals := locals', models := models'\<rparr>)
                 else (False, s\<lparr>cache := cache', locals := locals'\<rparr>))
        \<and> attached (snd r) = attached s
        \<and> box_local_transform (snd r) = box_local_transform s
        \<and> box_world_transform (snd r) = box_world_transform s))"
proof (intro conjI impI)
  assume ok: "Update_TriggeringMethod env s = Some (True, s')"
  from Update_TriggeringMethod_success [OF ok] obtain edges s1 where
    q: "FloatTrackTriggeringJob_Run env (track s)
           (ctl_previous_time (controller s) / duration env (animation s))
           (ctl_time (controller s) / duration env (animation s)) (1 / 2) 8 = Some edges"
    and loop: "edges_loop env edges 0 s = Some (True, s1)"
    and uj: "Update_Joints env (ctl_time (controller s)) s1 = (True, s')"
    by blast
  from loop have "policyB_edges env edges s = Some (True, s1)"
    by (simp add: edges_loop_drop)
  from policyB_edges_frame [OF this]
  have fr: "animation s1 = animation s" "skeleton s1 = skeleton s" by simp_all
  obtain ok1 cache' locals' where
    sj: "SamplingJob_Run env (animation s) (cache s1) (ctl_time (controller s)) (locals s1)
            = (ok1, cache', locals')"
    by (cases "SamplingJob_Run env (animation s) (cache s1) (ctl_time (controller s)) (locals s1)")
  obtain ok2 models' where
    lj: "LocalToModelJob_Run env (skeleton s) locals' (models s1) = (ok2, models')"
    by (cases "LocalToModelJob_Run env (skeleton s) locals' (models s1)")
  from sj lj fr have "Update_Joints env (ctl_time (controller s)) s1 =
           (if ok1 then (ok2, s1\<lparr>cache := cache', locals := locals', models := models'\<rparr>)
            else (False, s1\<lparr>cache := cache', locals := locals'\<rparr>))"
    by (simp add: Update_Joints_def Let_def)
  with uj have "ok1 \<and> ok2 \<and> s' = s1\<lparr>cache := cache', locals := locals', models := models'\<rparr>"
    by (auto split: if_splits)
  with q loop sj lj show "\<exists>edges s1 cache' locals' models'.
         FloatTrackTriggeringJob_Run env (track s)
           (ctl_previous_time (controller s) / duration env (animation s))
           (ctl_time (controller s) / duration env (animation s)) (1 / 2) 8 = Some edges
       \<and> edges_loop env edges 0 s = Some (True, s1)
       \<and> SamplingJob_Run env (animation s) (cache s1) (ctl_time (controller s)) (locals s1)
           = (True, cache', locals')
       \<and> LocalToModelJob_Run env (skeleton s) locals' (models s1) = (True, models')
       \<and> s' = s1\<lparr>cache := cache', locals := locals', models := models'\<rparr>"
    by (intro exI [of _ edges] exI [of _ s1] exI [of _ cache'] exI [of _ locals']
        exI [of _ models']) simp
next
  assume "FloatTrackTriggeringJob_Run env (track s)
         (ctl_previous_time (controller s) / duration env (animation s))
         (ctl_time (controller s) / duration env (animation s)) (1 / 2) 8 = Some []"
  then show "\<exists>ok1 cache' locals' ok2 models' r.
          SamplingJob_Run env (animation s) (cache s) (ctl_time (controller s)) (locals s)
            = (ok1, cache', locals')
        \<and> LocalToModelJob_Run env (skeleton s) locals' (models s) = (ok2, models')
        \<and> Update_TriggeringMethod env s = Some r
        \<and> r = (if ok1 then (ok2, s\<lparr>cache := cache', locals := locals', models := models'\<rparr>)
                 else (False, s\<lparr>cache := cache', locals := locals'\<rparr>))
        \<and> attached (snd r) = attached s
        \<and> box_local_transform (snd r) = box_local_transform s
        \<and> box_world_transform (snd r) = box_world_transform s"
    by (rule Update_TriggeringMethod_no_edge)
next
  assume h: "ctl_previous_time (controller s) = ctl_time (controller s)
        \<and> (\<forall>r. FloatTrackTriggeringJob_Run env (track s) r r (1 / 2) 8 = Some [])"
  then have "FloatTrackTriggeringJob_Run env (track s)
         (ctl_previous_time (controller s) / duration env (animation s))
         (ctl_time (controller s) / duration env (animation s)) (1 / 2) 8 = Some []"
    by simp
  then show "\<exists>ok1 cache' locals' ok2 models' r.
          SamplingJob_Run env (animation s) (cache s) (ctl_time (controller s)) (locals s)
            = (ok1, cache', locals')
        \<and> LocalToModelJob_Run env (skeleton s) locals' (models s) = (ok2, models')
        \<and> Update_TriggeringMethod env s = Some r
        \<and> r = (if ok1 then (ok2, s\<lparr>cache := cache', locals := locals', models := models'\<rparr>)
                 else (False, s\<lparr>cache := cache', locals := locals'\<rparr>))
        \<and> attached (snd r) = attached s
        \<and> box_local_transform (snd r) = box_local_transform s
        \<and> box_world_transform (snd r) = box_world_transform s"
    by (rule Update_TriggeringMethod_no_edge)
qed

theorem final_pose_evaluation_witness:
  "duration (scene []) (animation (scene_app_at 8)) \<noteq> 0
   \<and> FloatTrackTriggeringJob_Run (scene []) () (0 / 10) (8 / 10) (1 / 2) 8
       = Some [\<lparr>time = 1 / 2, rising = True\<rparr>]
   \<and> edges_loop (scene []) [\<lparr>time = 1 / 2, rising = True\<rparr>] 0 (scene_app_at 8)
       = Some (True, scene_app_attached)
   \<and> SamplingJob_Run (scene []) () (Some ()) 8 [5] = (True, Some (), [8])
   \<and> LocalToModelJob_Run (scene []) (skeleton scene_app) [8] (scene_pose 5) = (True, scene_pose 8)
   \<and> Update_TriggeringMethod (scene []) (scene_app_at 8)
       = Some (True, scene_app_attached\<lparr>cache := Some (), locals := [8], models := scene_pose 8\<rparr>)
   \<and> scene_pose 8 \<noteq> scene_pose 5
   \<and> duration (scene []) (animation scene_app_still) \<noteq> 0
   \<and> ctl_previous_time (controller scene_app_still) = ctl_time (controller scene_app_still)
   \<and> (\<forall>r. FloatTrackTriggeringJob_Run (scene []) (track scene_app_still) r r (1 / 2) 8 = Some [])
   \<and> Update_TriggeringMethod (scene []) scene_app_still
       = Some (True, scene_app_still\<lparr>cache := Some (), locals := [8], models := scene_pose 8\<rparr>)
   \<and> models scene_app_still \<noteq> scene_pose 8"
proof -
  let ?e = "\<lparr>time = 1 / 2, rising = True\<rparr>"
  let ?sF = "scene_app_attached\<lparr>cache := Some (), locals := [8], models := scene_pose 8\<rparr>"
  have d1: "duration (scene []) (animation (scene_app_at 8)) \<noteq> 0"
    and d2: "duration (scene []) (animation scene_app_still) \<noteq> 0"
    by (simp_all add: scene_simps)
  have run: "Update_TriggeringMethod (scene []) (scene_app_at 8) = Some (True, ?sF)"
    by (simp add: scene_run scene_app_attached_def scene_pose_def del: Translation.simps)
  have loop: "edges_loop (scene []) [?e] 0 (scene_app_at 8) = Some (True, scene_app_attached)"
    by (simp add: scene_run scene_app_attached_def scene_pose_def del: Translation.simps)
  have jobs: "SamplingJob_Run (scene []) () (Some ()) 8 [5] = (True, Some (), [8])"
    "LocalToModelJob_Run (scene []) (skeleton scene_app) [8] (scene_pose 5) = (True, scene_pose 8)"
    "FloatTrackTriggeringJob_Run (scene []) () (0 / 10) (8 / 10) (1 / 2) 8 = Some [?e]"
    by (simp_all add: scene_simps scene_pose_def)
  have still: "ctl_previous_time (controller scene_app_still) = ctl_time (controller scene_app_still)
        \<and> (\<forall>r. FloatTrackTriggeringJob_Run (scene []) (track scene_app_still) r r (1 / 2) 8 = Some [])"
    by (simp add: scene_app_still_def scene_simps)
  have sj: "SamplingJob_Run (scene []) (animation scene_app_still) (cache scene_app_still)
              (ctl_time (controller scene_app_still)) (locals scene_app_still)
            = (True, Some (), [8])"
    by (simp add: scene_app_still_def scene_app_eq scene_simps)
  have lj: "LocalToModelJob_Run (scene []) (skeleton scene_app_still) [8] (models scene_app_still)
            = (True, scene_pose 8)"
    by (simp add: scene_app_still_def scene_app_eq scene_simps scene_pose_def)
  from final_pose_evaluation [OF d2, THEN conjunct2, THEN conjunct2, rule_format, OF still]
  have run2: "Update_TriggeringMethod (scene []) scene_app_still
       = Some (True, scene_app_still\<lparr>cache := Some (), locals := [8], models := scene_pose 8\<rparr>)"
    using sj lj by auto
  have ne: "scene_pose 8 \<noteq> scene_pose 5" "models scene_app_still \<noteq> scene_pose 8"
    by (simp_all add: scene_pose_def scene_app_still_def scene_app_eq identity_def)
  from final_pose_evaluation [OF d1, of ?sF] run
  have "\<exists>edges s1 cache' locals' models'.
         FloatTrackTriggeringJob_Run (scene []) (track (scene_app_at 8))
           (ctl_previous_time (controller (scene_app_at 8)) / duration (scene []) (animation (scene_app_at 8)))
           (ctl_time (controller (scene_app_at 8)) / duration (scene []) (animation (scene_app_at 8)))
           (1 / 2) 8 = Some edges
       \<and> edges_loop (scene []) edges 0 (scene_app_at 8) = Some (True, s1)
       \<and> SamplingJob_Run (scene []) (animation (scene_app_at 8)) (cache s1)
            (ctl_time (controller (scene_app_at 8))) (locals s1) = (True, cache', locals')
       \<and> LocalToModelJob_Run (scene []) (skeleton (scene_app_at 8)) locals' (models s1) = (True, models')
       \<and> ?sF = s1\<lparr>cache := cache', locals := locals', models := models'\<rparr>"
    by blast
  with d1 d2 run loop jobs still run2 ne show ?thesis
    by simp
qed

subsection \<open>The sampling policy\<close>

lemma Update_SamplingMethod_success:
  assumes "Update_SamplingMethod env s = Some (True, s')"
  shows "\<exists>s1. Update_Joints env (ctl_time (controller s)) s = (True, s1) \<and> models s' = models s1"
proof -
  obtain ok1 s1 where uj: "Update_Joints env (ctl_time (controller s)) s = (ok1, s1)"
    by (cases "Update_Joints env (ctl_time (controller s)) s")
  from assms uj show ?thesis
    by (auto simp: Update_SamplingMethod_def Let_def split: bool.splits option.splits if_splits)
qed

text \<open>
  C4. Policy A: a successful step of the direct-sampling policy evaluates the pose at the
  current time, samples the track at the current time divided by the duration, and sets
  the flag to whether the sample is different from zero. Exactly when the flag goes from
  false to true, the local transform becomes the inverse of the joint's model matrix times
  the world transform; otherwise it keeps its value. The world transform is not touched.
\<close>

theorem sampling_policy:
  assumes "Update_SamplingMethod env s = Some (True, s')"
    and "duration env (animation s) \<noteq> 0"
  shows "\<exists>s1 v.
           Update_Joints env (ctl_time (controller s)) s = (True, s1)
         \<and> FloatTrackSamplingJob_Run env (track s)
               (ctl_time (controller s) / duration env (animation s)) = Some v
         \<and> attached s' = (v \<noteq> 0)
         \<and> models s' = models s1
         \<and> box_world_transform s' = box_world_transform s
         \<and> (if \<not> attached s \<and> attached s'
             then 0 \<le> attach_joint s \<and> attach_joint s < int (length (models s1))
                  \<and> box_local_transform s' =
                      Invert (models s1 ! nat (attach_joint s)) * box_world_transform s
             else box_local_transform s' = box_local_transform s)"
proof -
  obtain ok1 s1 where uj: "Update_Joints env (ctl_time (controller s)) s = (ok1, s1)"
    by (cases "Update_Joints env (ctl_time (controller s)) s")
  note fr = Update_Joints_frame_eq [OF uj]
  from assms uj have ok1: "ok1"
    by (auto simp: Update_SamplingMethod_def split: bool.splits)
  from assms uj ok1 fr obtain v where
    v: "FloatTrackSamplingJob_Run env (track s)
          (ctl_time (controller s) / duration env (animation s)) = Some v"
    by (auto simp: Update_SamplingMethod_def split: option.splits)
  from assms uj ok1 v fr show ?thesis
    by (auto simp: Update_SamplingMethod_def Let_def models_at_attach_joint_def
        split: option.splits if_splits)
qed

theorem sampling_policy_witness:
  "Update_SamplingMethod (scene []) ((scene_app_at 6)\<lparr>reading_method := 0\<rparr>) =
     Some (True, (scene_app_at 6)\<lparr>reading_method := 0, locals := [6],
       models := [Translation (6, 0, 0, 0), Translation (6, 0, 0, 0), Translation (6, 0, 0, 0)],
       attached := True,
       box_local_transform := Translation (- 6, 1 / 10, 3 / 10, 0)\<rparr>)
   \<and> duration (scene []) () \<noteq> 0
   \<and> FloatTrackSamplingJob_Run (scene []) () (6 / 10) = Some 1"
proof -
  let ?s = "(scene_app_at 6)\<lparr>reading_method := 0\<rparr>"
  let ?s' = "(scene_app_at 6)\<lparr>reading_method := 0, locals := [6],
       models := [Translation (6, 0, 0, 0), Translation (6, 0, 0, 0), Translation (6, 0, 0, 0)],
       attached := True,
       box_local_transform := Translation (- 6, 1 / 10, 3 / 10, 0)\<rparr>"
  have run: "Update_SamplingMethod (scene []) ?s = Some (True, ?s')"
    by (simp add: Update_SamplingMethod_def Update_Joints_def scene_simps scene_app_eq
        scene_app_at_def models_at_attach_joint_def kBoxInitialPosition_def
        Invert_Translation Translation_times del: Translation.simps)
  have d: "duration (scene []) (animation ?s) \<noteq> 0"
    by (simp add: scene_simps)
  from sampling_policy [OF run d] show ?thesis
    using run by (simp add: scene_simps)
qed

subsection \<open>The end of the step\<close>

text \<open>
  C5. End of the step: when the update of either policy has succeeded, \<^verbatim>\<open>OnUpdate\<close>
  finishes as follows. If the box is attached, the world transform becomes the joint's
  model matrix times the local transform, the model matrices being those of a pose
  evaluation at the current time; if it is not attached the state is returned as the
  policy left it. Nothing but the world transform changes in this stage, so the local
  transform never does.
\<close>

theorem end_of_step_world_transform:
  assumes "OnUpdate env dt s = Some (True, s')"
    and "s0 = s\<lparr>controller := controller_Update env (animation s) dt (controller s)\<rparr>"
  shows "\<exists>s1.
           (if reading_method s = 0 then Update_SamplingMethod env s0 else Update_TriggeringMethod env s0)
             = Some (True, s1)
         \<and> (\<exists>sp sp'. Update_Joints env (ctl_time (controller s0)) sp = (True, sp')
                      \<and> models s1 = models sp')
         \<and> (if attached s1
             then 0 \<le> attach_joint s1 \<and> attach_joint s1 < int (length (models s1))
                  \<and> s' = s1\<lparr>box_world_transform :=
                                models s1 ! nat (attach_joint s1) * box_local_transform s1\<rparr>
             else s' = s1)"
proof -
  let ?u = "if reading_method s = 0 then Update_SamplingMethod env s0 else Update_TriggeringMethod env s0"
  from assms obtain s1 where u: "?u = Some (True, s1)"
    by (auto simp: OnUpdate_def Let_def split: option.splits bool.splits prod.splits if_splits)
  have pose: "\<exists>sp sp'. Update_Joints env (ctl_time (controller s0)) sp = (True, sp')
                      \<and> models s1 = models sp'"
  proof (cases "reading_method s = 0")
    case True
    with u have "Update_SamplingMethod env s0 = Some (True, s1)" by simp
    from Update_SamplingMethod_success [OF this] show ?thesis by blast
  next
    case False
    with u have "Update_TriggeringMethod env s0 = Some (True, s1)" by simp
    from Update_TriggeringMethod_success [OF this] show ?thesis by blast
  qed
  have stage: "if attached s1
       then 0 \<le> attach_joint s1 \<and> attach_joint s1 < int (length (models s1))
            \<and> s' = s1\<lparr>box_world_transform :=
                          models s1 ! nat (attach_joint s1) * box_local_transform s1\<rparr>
       else s' = s1"
    using assms u
    by (auto simp: OnUpdate_def Let_def models_at_attach_joint_def
        split: option.splits if_splits)
  from u pose stage show ?thesis by blast
qed

theorem end_of_step_world_transform_witness:
  "OnUpdate (scene []) 8 scene_app =
     Some (True, (scene_app_at 8)\<lparr>locals := [8],
       models := [Translation (8, 0, 0, 0), Translation (8, 0, 0, 0), Translation (8, 0, 0, 0)],
       attached := True,
       box_local_transform := Translation (- 5, 1 / 10, 3 / 10, 0),
       box_world_transform := Translation (3, 1 / 10, 3 / 10, 0)\<rparr>)
   \<and> scene_app_at 8 =
       scene_app\<lparr>controller := controller_Update (scene []) (animation scene_app) 8
                                   (controller scene_app)\<rparr>
   \<and> Update_TriggeringMethod (scene []) (scene_app_at 8) =
       Some (True, (scene_app_at 8)\<lparr>locals := [8],
         models := [Translation (8, 0, 0, 0), Translation (8, 0, 0, 0), Translation (8, 0, 0, 0)],
         attached := True,
         box_local_transform := Translation (- 5, 1 / 10, 3 / 10, 0)\<rparr>)"
proof -
  let ?s' = "(scene_app_at 8)\<lparr>locals := [8],
       models := [Translation (8, 0, 0, 0), Translation (8, 0, 0, 0), Translation (8, 0, 0, 0)],
       attached := True,
       box_local_transform := Translation (- 5, 1 / 10, 3 / 10, 0),
       box_world_transform := Translation (3, 1 / 10, 3 / 10, 0)\<rparr>"
  have s0: "scene_app_at 8 =
       scene_app\<lparr>controller := controller_Update (scene []) (animation scene_app) 8
                                   (controller scene_app)\<rparr>"
    by (simp add: scene_app_at_def scene_simps scene_app_eq)
  have run: "OnUpdate (scene []) 8 scene_app = Some (True, ?s')"
    by (simp add: OnUpdate_def Update_TriggeringMethod_def edges_loop.simps
        Update_Joints_def scene_simps scene_app_eq
        scene_app_at_def models_at_attach_joint_def kBoxInitialPosition_def
        Invert_Translation Translation_times del: Translation.simps)
  from end_of_step_world_transform [OF run s0] show ?thesis
    using run s0
    by (simp add: Update_TriggeringMethod_def edges_loop.simps
        Update_Joints_def scene_simps scene_app_eq
        scene_app_at_def models_at_attach_joint_def kBoxInitialPosition_def
        Invert_Translation Translation_times del: Translation.simps)
qed

subsection \<open>Failures\<close>

lemma edges_loop_fails_at:
  assumes i: "i < length es"
    and before: "edges_loop env (take i es) 0 s = Some (True, si)"
    and fails: "Update_Joints env (time (es ! i) * duration env (animation s))
                  (si\<lparr>attached := rising (es ! i)\<rparr>) = (False, sf)"
  shows "edges_loop env es 0 s = Some (False, sf)"
proof -
  from before have b: "policyB_edges env (take i es) s = Some (True, si)"
    by (simp add: edges_loop_drop)
  from policyB_edges_frame [OF b] have "animation si = animation s" by simp
  with fails have e: "policyB_edge env (es ! i) si = Some (False, sf)"
    by (simp add: policyB_edge_def)
  have "es = take i es @ es ! i # drop (Suc i) es"
    using i by (simp add: id_take_nth_drop)
  then have "policyB_edges env es s = policyB_edges env (take i es @ es ! i # drop (Suc i) es) s"
    by simp
  also have "\<dots> = Some (False, sf)"
    unfolding policyB_edges_append using b e by simp
  finally show ?thesis by (simp add: edges_loop_drop)
qed

text \<open>
  C6, as amended. Failures are passed on and nothing is rolled back. If the edge query
  fails, the step fails and the state is as it was. If the pose evaluation for the edge of
  index \<open>i\<close> fails, after the loop has handled the \<open>i\<close> edges before it and reached the
  state \<open>si\<close>, the step fails at once; the transforms are those of \<open>si\<close>, as the earlier
  edges set them, but the flag is the direction of the edge of index \<open>i\<close>, assigned before
  the evaluation, not the flag that the earlier edges set. If the final pose evaluation
  fails after all edges have been handled, the step fails with the flag and the
  transforms that the edges produced. And when the edge-triggered update fails, so does
  \<^verbatim>\<open>OnUpdate\<close>, with the very state the update left: nothing more is done in the step.
\<close>

theorem failure_propagation:
  assumes "duration env (animation s) \<noteq> 0"
  shows
  "(FloatTrackTriggeringJob_Run env (track s)
       (ctl_previous_time (controller s) / duration env (animation s))
       (ctl_time (controller s) / duration env (animation s)) (1 / 2) 8 = None \<longrightarrow>
      Update_TriggeringMethod env s = Some (False, s))
   \<and> (FloatTrackTriggeringJob_Run env (track s)
       (ctl_previous_time (controller s) / duration env (animation s))
       (ctl_time (controller s) / duration env (animation s)) (1 / 2) 8 = Some es
      \<and> i < length es
      \<and> edges_loop env (take i es) 0 s = Some (True, si)
      \<and> Update_Joints env (time (es ! i) * duration env (animation s))
           (si\<lparr>attached := rising (es ! i)\<rparr>) = (False, sf) \<longrightarrow>
      Update_TriggeringMethod env s = Some (False, sf)
      \<and> attached sf = rising (es ! i)
      \<and> box_local_transform sf = box_local_transform si
      \<and> box_world_transform sf = box_world_transform si)
   \<and> (FloatTrackTriggeringJob_Run env (track s)
       (ctl_previous_time (controller s) / duration env (animation s))
       (ctl_time (controller s) / duration env (animation s)) (1 / 2) 8 = Some es
      \<and> edges_loop env es 0 s = Some (True, sn)
      \<and> Update_Joints env (ctl_time (controller s)) sn = (False, sf') \<longrightarrow>
      Update_TriggeringMethod env s = Some (False, sf')
      \<and> attached sf' = attached sn
      \<and> box_local_transform sf' = box_local_transform sn
      \<and> box_world_transform sf' = box_world_transform sn)
   \<and> (reading_method s \<noteq> 0
      \<and> Update_TriggeringMethod env
           (s\<lparr>controller := controller_Update env (animation s) dt (controller s)\<rparr>)
          = Some (False, sr) \<longrightarrow>
      OnUpdate env dt s = Some (False, sr))"
proof (intro conjI impI)
  assume "FloatTrackTriggeringJob_Run env (track s)
       (ctl_previous_time (controller s) / duration env (animation s))
       (ctl_time (controller s) / duration env (animation s)) (1 / 2) 8 = None"
  then show "Update_TriggeringMethod env s = Some (False, s)"
    by (simp add: Update_TriggeringMethod_def)
next
  assume h: "FloatTrackTriggeringJob_Run env (track s)
       (ctl_previous_time (controller s) / duration env (animation s))
       (ctl_time (controller s) / duration env (animation s)) (1 / 2) 8 = Some es
      \<and> i < length es
      \<and> edges_loop env (take i es) 0 s = Some (True, si)
      \<and> Update_Joints env (time (es ! i) * duration env (animation s))
           (si\<lparr>attached := rising (es ! i)\<rparr>) = (False, sf)"
  then have "edges_loop env es 0 s = Some (False, sf)"
    by (intro edges_loop_fails_at [of i es env s si sf]) simp_all
  with h show "Update_TriggeringMethod env s = Some (False, sf)"
    by (simp add: Update_TriggeringMethod_def)
  from h have uj: "Update_Joints env (time (es ! i) * duration env (animation s))
           (si\<lparr>attached := rising (es ! i)\<rparr>) = (False, sf)" by simp
  from Update_Joints_frame_eq [OF uj]
  show "attached sf = rising (es ! i)"
    and "box_local_transform sf = box_local_transform si"
    and "box_world_transform sf = box_world_transform si"
    by simp_all
next
  assume h: "FloatTrackTriggeringJob_Run env (track s)
       (ctl_previous_time (controller s) / duration env (animation s))
       (ctl_time (controller s) / duration env (animation s)) (1 / 2) 8 = Some es
      \<and> edges_loop env es 0 s = Some (True, sn)
      \<and> Update_Joints env (ctl_time (controller s)) sn = (False, sf')"
  then have "policyB_edges env es s = Some (True, sn)"
    by (simp add: edges_loop_drop)
  from policyB_edges_frame [OF this] have "controller sn = controller s" by simp
  with h show "Update_TriggeringMethod env s = Some (False, sf')"
    by (simp add: Update_TriggeringMethod_def)
  from h have uj: "Update_Joints env (ctl_time (controller s)) sn = (False, sf')" by simp
  from Update_Joints_frame_eq [OF uj]
  show "attached sf' = attached sn"
    and "box_local_transform sf' = box_local_transform sn"
    and "box_world_transform sf' = box_world_transform sn"
    by simp_all
next
  assume "reading_method s \<noteq> 0
      \<and> Update_TriggeringMethod env
           (s\<lparr>controller := controller_Update env (animation s) dt (controller s)\<rparr>)
          = Some (False, sr)"
  then show "OnUpdate env dt s = Some (False, sr)"
    by (simp add: OnUpdate_def Let_def)
qed

theorem failure_propagation_witness:
  "duration scene_without_track () \<noteq> 0 \<and> duration (scene_pulse [5]) () \<noteq> 0
   \<and> duration (scene [8]) () \<noteq> 0
   \<and> FloatTrackTriggeringJob_Run scene_without_track () (0 / 10) (0 / 10) (1 / 2) 8 = None
   \<and> Update_TriggeringMethod scene_without_track scene_app = Some (False, scene_app)
   \<and> FloatTrackTriggeringJob_Run (scene_pulse [5]) () (0 / 10) (8 / 10) (1 / 2) 8
       = Some [\<lparr>time = 1 / 4, rising = True\<rparr>, \<lparr>time = 1 / 2, rising = False\<rparr>]
   \<and> edges_loop (scene_pulse [5])
         (take 1 [\<lparr>time = 1 / 4, rising = True\<rparr>, \<lparr>time = 1 / 2, rising = False\<rparr>]) 0
         (scene_app_at 8)
       = Some (True, scene_app_risen)
   \<and> Update_Joints (scene_pulse [5]) (1 / 2 * 10) (scene_app_risen\<lparr>attached := False\<rparr>)
       = (False, scene_app_risen\<lparr>attached := False\<rparr>)
   \<and> Update_TriggeringMethod (scene_pulse [5]) (scene_app_at 8)
       = Some (False, scene_app_risen\<lparr>attached := False\<rparr>)
   \<and> box_local_transform (scene_app_risen\<lparr>attached := False\<rparr>)
       = Translation (- (5 / 2), 1 / 10, 3 / 10, 0)
   \<and> box_local_transform (scene_app_at 8) = identity
   \<and> edges_loop (scene [8]) [\<lparr>time = 1 / 2, rising = True\<rparr>] 0 (scene_app_at 8)
       = Some (True, scene_app_attached)
   \<and> Update_Joints (scene [8]) 8 scene_app_attached = (False, scene_app_attached)
   \<and> Update_TriggeringMethod (scene [8]) (scene_app_at 8) = Some (False, scene_app_attached)
   \<and> OnUpdate (scene_pulse [5]) 8 scene_app = Some (False, scene_app_risen\<lparr>attached := False\<rparr>)"
proof -
  let ?s = "scene_app_at 8"
  let ?r = "\<lparr>time = 1 / 4, rising = True\<rparr>"
  let ?f = "\<lparr>time = 1 / 2, rising = False\<rparr>"
  let ?e = "\<lparr>time = 1 / 2, rising = True\<rparr>"
  let ?sf = "scene_app_risen\<lparr>attached := False\<rparr>"
  have d0: "duration scene_without_track (animation scene_app) \<noteq> 0"
    and d5: "duration (scene_pulse [5]) (animation ?s) \<noteq> 0"
    and d5': "duration (scene_pulse [5]) (animation scene_app) \<noteq> 0"
    and d8: "duration (scene [8]) (animation ?s) \<noteq> 0"
    by (simp_all add: scene_simps scene_pulse_simps scene_without_track_def)
  have 0: "FloatTrackTriggeringJob_Run scene_without_track () (0 / 10) (0 / 10) (1 / 2) 8 = None"
    by (simp add: scene_without_track_def)
  have 1: "Update_TriggeringMethod scene_without_track scene_app = Some (False, scene_app)"
    using failure_propagation [OF d0]
    by (simp add: scene_without_track_def)
  have q5: "FloatTrackTriggeringJob_Run (scene_pulse [5]) (track ?s)
       (ctl_previous_time (controller ?s) / duration (scene_pulse [5]) (animation ?s))
       (ctl_time (controller ?s) / duration (scene_pulse [5]) (animation ?s)) (1 / 2) 8
      = Some [?r, ?f]"
    by (simp add: scene_pulse_simps scene_app_at_def)
  have i: "1 < length [?r, ?f]" by simp
  have before: "edges_loop (scene_pulse [5]) (take 1 [?r, ?f]) 0 ?s = Some (True, scene_app_risen)"
    by (simp add: scene_pulse_run scene_app_risen_def scene_pose_def del: Translation.simps)
  have fails: "Update_Joints (scene_pulse [5])
           (time ([?r, ?f] ! 1) * duration (scene_pulse [5]) (animation ?s))
           (scene_app_risen\<lparr>attached := rising ([?r, ?f] ! 1)\<rparr>) = (False, ?sf)"
    by (simp add: scene_pulse_run scene_app_risen_def)
  from failure_propagation [OF d5, THEN conjunct2, THEN conjunct1, rule_format,
      of "[?r, ?f]" 1 scene_app_risen ?sf] q5 i before fails
  have 2: "Update_TriggeringMethod (scene_pulse [5]) ?s = Some (False, ?sf)"
    "box_local_transform ?sf = box_local_transform scene_app_risen"
    by simp_all
  have q8: "FloatTrackTriggeringJob_Run (scene [8]) (track ?s)
       (ctl_previous_time (controller ?s) / duration (scene [8]) (animation ?s))
       (ctl_time (controller ?s) / duration (scene [8]) (animation ?s)) (1 / 2) 8 = Some [?e]"
    by (simp add: scene_simps scene_app_at_def)
  have loop: "edges_loop (scene [8]) [?e] 0 ?s = Some (True, scene_app_attached)"
    by (simp add: scene_run scene_app_attached_def scene_pose_def del: Translation.simps)
  have final: "Update_Joints (scene [8]) (ctl_time (controller ?s)) scene_app_attached
       = (False, scene_app_attached)"
    by (simp add: scene_run scene_app_attached_def)
  from failure_propagation [OF d8, THEN conjunct2, THEN conjunct2, THEN conjunct1, rule_format,
      of "[?e]" scene_app_attached scene_app_attached] q8 loop final
  have 3: "Update_TriggeringMethod (scene [8]) ?s = Some (False, scene_app_attached)"
    by simp
  have s0: "scene_app\<lparr>controller := controller_Update (scene_pulse [5]) (animation scene_app) 8
              (controller scene_app)\<rparr> = ?s"
    by (simp add: scene_app_at_def scene_pulse_simps scene_app_eq)
  from failure_propagation [OF d5', THEN conjunct2, THEN conjunct2, THEN conjunct2,
      rule_format, of 8 ?sf] 2 s0
  have 4: "OnUpdate (scene_pulse [5]) 8 scene_app = Some (False, ?sf)"
    by (simp add: scene_app_eq)
  have rest: "box_local_transform ?sf = Translation (- (5 / 2), 1 / 10, 3 / 10, 0)"
    "box_local_transform ?s = identity"
    "Update_Joints (scene [8]) 8 scene_app_attached = (False, scene_app_attached)"
    using final by (simp_all add: scene_app_risen_def scene_app_at_def scene_app_eq)
  from 0 1 2 3 4 before fails loop rest q5 show ?thesis
    by (simp add: scene_simps scene_pulse_simps scene_without_track_def scene_app_at_def)
qed

text \<open>
  C6 as stated fails for the flag. With the pulse, a step from 0 to 8 seconds finds a
  rising edge at 2.5 seconds and a falling edge at 5 seconds, and sampling fails at 5
  seconds. The first edge sets the flag and captures the local transform; the second edge
  clears the flag and then fails to evaluate the pose. The step returns \<^verbatim>\<open>false\<close> with the
  flag cleared: the value that the earlier edge gave to the flag is not retained.
\<close>

theorem failure_propagation_counterexample:
  "FloatTrackTriggeringJob_Run (scene_pulse [5]) () (0 / 10) (8 / 10) (1 / 2) 8
     = Some [\<lparr>time = 1 / 4, rising = True\<rparr>, \<lparr>time = 1 / 2, rising = False\<rparr>]
   \<and> edges_loop (scene_pulse [5]) [\<lparr>time = 1 / 4, rising = True\<rparr>] 0 (scene_app_at 8)
       = Some (True, scene_app_risen)
   \<and> attached scene_app_risen
   \<and> Update_Joints (scene_pulse [5]) (1 / 2 * 10) (scene_app_risen\<lparr>attached := False\<rparr>)
       = (False, scene_app_risen\<lparr>attached := False\<rparr>)
   \<and> OnUpdate (scene_pulse [5]) 8 scene_app = Some (False, scene_app_risen\<lparr>attached := False\<rparr>)
   \<and> attached (scene_app_risen\<lparr>attached := False\<rparr>) \<noteq> attached scene_app_risen"
  by (simp add: scene_pulse_run scene_app_risen_def scene_pose_def del: Translation.simps)

text \<open>
  C9. The flag is set before the pose is evaluated: if the pose evaluation fails at the
  edge of index \<open>i\<close>, the step fails with the flag equal to the direction of that edge,
  while the local and the world transform are those after the edges before it (those of
  the state before the step when \<open>i = 0\<close>). So after a failed step the flag and the
  transforms may disagree.
\<close>

theorem flag_set_before_failed_evaluation:
  assumes "FloatTrackTriggeringJob_Run env (track s)
       (ctl_previous_time (controller s) / duration env (animation s))
       (ctl_time (controller s) / duration env (animation s)) (1 / 2) 8 = Some es"
    and "i < length es"
    and "edges_loop env (take i es) 0 s = Some (True, si)"
    and "\<not> fst (Update_Joints env (time (es ! i) * duration env (animation s))
           (si\<lparr>attached := rising (es ! i)\<rparr>))"
    and "duration env (animation s) \<noteq> 0"
  shows "\<exists>sf. Update_TriggeringMethod env s = Some (False, sf)
            \<and> attached sf = rising (es ! i)
            \<and> box_local_transform sf = box_local_transform si
            \<and> box_world_transform sf = box_world_transform si
            \<and> (i = 0 \<longrightarrow> si = s)"
proof -
  obtain sf where uj: "Update_Joints env (time (es ! i) * duration env (animation s))
           (si\<lparr>attached := rising (es ! i)\<rparr>) = (False, sf)"
    using assms(4)
    by (cases "Update_Joints env (time (es ! i) * duration env (animation s))
           (si\<lparr>attached := rising (es ! i)\<rparr>)") auto
  from edges_loop_fails_at [OF assms(2,3) uj] assms(1)
  have "Update_TriggeringMethod env s = Some (False, sf)"
    by (simp add: Update_TriggeringMethod_def)
  moreover from Update_Joints_frame_eq [OF uj]
  have "attached sf = rising (es ! i)"
    "box_local_transform sf = box_local_transform si"
    "box_world_transform sf = box_world_transform si"
    by simp_all
  moreover have "i = 0 \<longrightarrow> si = s"
    using assms(3) by (auto simp: policyB_edges_Nil_loop)
  ultimately show ?thesis by blast
qed

theorem flag_set_before_failed_evaluation_witness:
  "duration (scene [5]) () \<noteq> 0
   \<and> FloatTrackTriggeringJob_Run (scene [5]) () (0 / 10) (8 / 10) (1 / 2) 8
     = Some [\<lparr>time = 1 / 2, rising = True\<rparr>]
   \<and> \<not> fst (Update_Joints (scene [5]) (1 / 2 * 10) ((scene_app_at 8)\<lparr>attached := True\<rparr>))
   \<and> Update_TriggeringMethod (scene [5]) (scene_app_at 8)
       = Some (False, (scene_app_at 8)\<lparr>attached := True\<rparr>)
   \<and> attached ((scene_app_at 8)\<lparr>attached := True\<rparr>)
   \<and> box_local_transform ((scene_app_at 8)\<lparr>attached := True\<rparr>) = identity
   \<and> box_world_transform ((scene_app_at 8)\<lparr>attached := True\<rparr>)
       = Translation kBoxInitialPosition"
proof -
  let ?s = "scene_app_at 8"
  let ?es = "[\<lparr>time = 1 / 2, rising = True\<rparr>]"
  have q: "FloatTrackTriggeringJob_Run (scene [5]) (track ?s)
       (ctl_previous_time (controller ?s) / duration (scene [5]) (animation ?s))
       (ctl_time (controller ?s) / duration (scene [5]) (animation ?s)) (1 / 2) 8 = Some ?es"
    by (simp add: scene_simps scene_app_at_def)
  have i: "0 < length ?es" by simp
  have before: "edges_loop (scene [5]) (take 0 ?es) 0 ?s = Some (True, ?s)"
    by (simp add: edges_loop.simps)
  have fails: "\<not> fst (Update_Joints (scene [5]) (time (?es ! 0) * duration (scene [5]) (animation ?s))
           (?s\<lparr>attached := rising (?es ! 0)\<rparr>))"
    by (simp add: Update_Joints_def scene_simps)
  have d: "duration (scene [5]) (animation ?s) \<noteq> 0"
    by (simp add: scene_simps)
  from flag_set_before_failed_evaluation [OF q i before fails d] show ?thesis
    using q fails
    by (simp add: scene_run del: Translation.simps)
qed

subsection \<open>The joint to attach to\<close>

lemma strstr_sublist: "strstr h n \<noteq> None \<longleftrightarrow> sublist n h"
proof (induction h)
  case Nil
  then show ?case by simp
next
  case (Cons c cs)
  show ?case
  proof (cases "prefix n (c # cs)")
    case True
    then show ?thesis by (simp add: prefix_imp_sublist)
  next
    case False
    with Cons show ?thesis by (simp add: sublist_Cons_right)
  qed
qed

lemma strstr_None: "strstr h n = None \<longleftrightarrow> \<not> sublist n h"
  using strstr_sublist [of h n] by blast

lemma find_attach_joint_result:
  assumes "0 \<le> i"
  shows "(\<exists>k. i \<le> k \<and> k < num_joints sk \<and> find_attach_joint sk i aj = k
              \<and> sublist ''thumb2'' (joint_names sk ! nat k)
              \<and> (\<forall>j. i \<le> j \<and> j < k \<longrightarrow> \<not> sublist ''thumb2'' (joint_names sk ! nat j)))
       \<or> ((\<forall>j. i \<le> j \<and> j < num_joints sk \<longrightarrow> \<not> sublist ''thumb2'' (joint_names sk ! nat j))
           \<and> find_attach_joint sk i aj = aj)"
  using assms
proof (induction sk i aj rule: find_attach_joint.induct)
  case (1 sk i aj)
  show ?case
  proof (cases "i < num_joints sk")
    case False
    then have "find_attach_joint sk i aj = aj"
      by (subst find_attach_joint.simps) simp
    with False show ?thesis by auto
  next
    case lt: True
    show ?thesis
    proof (cases "sublist ''thumb2'' (joint_names sk ! nat i)")
      case True
      then have "find_attach_joint sk i aj = i"
        using lt by (subst find_attach_joint.simps) (simp add: strstr_None)
      with True lt show ?thesis by auto
    next
      case False
      then have step: "find_attach_joint sk i aj = find_attach_joint sk (i + 1) aj"
        using lt by (subst find_attach_joint.simps) (simp add: strstr_None)
      have "strstr (joint_names sk ! nat i) ''thumb2'' = None"
        using False by (simp add: strstr_None)
      with "1.IH" lt "1.prems"
      have IH: "(\<exists>k. i + 1 \<le> k \<and> k < num_joints sk \<and> find_attach_joint sk (i + 1) aj = k
              \<and> sublist ''thumb2'' (joint_names sk ! nat k)
              \<and> (\<forall>j. i + 1 \<le> j \<and> j < k \<longrightarrow> \<not> sublist ''thumb2'' (joint_names sk ! nat j)))
       \<or> ((\<forall>j. i + 1 \<le> j \<and> j < num_joints sk \<longrightarrow> \<not> sublist ''thumb2'' (joint_names sk ! nat j))
           \<and> find_attach_joint sk (i + 1) aj = aj)"
        by simp
      have first: "\<not> sublist ''thumb2'' (joint_names sk ! nat j)"
        if "i \<le> j" "j < k" "\<forall>j. i + 1 \<le> j \<and> j < k \<longrightarrow> \<not> sublist ''thumb2'' (joint_names sk ! nat j)"
        for j k
      proof (cases "j = i")
        case True
        with False show ?thesis by simp
      next
        case False
        with that show ?thesis by simp
      qed
      from IH show ?thesis
      proof
        assume "\<exists>k. i + 1 \<le> k \<and> k < num_joints sk \<and> find_attach_joint sk (i + 1) aj = k
              \<and> sublist ''thumb2'' (joint_names sk ! nat k)
              \<and> (\<forall>j. i + 1 \<le> j \<and> j < k \<longrightarrow> \<not> sublist ''thumb2'' (joint_names sk ! nat j))"
        then obtain k where k: "i + 1 \<le> k" "k < num_joints sk"
          "find_attach_joint sk (i + 1) aj = k" "sublist ''thumb2'' (joint_names sk ! nat k)"
          "\<forall>j. i + 1 \<le> j \<and> j < k \<longrightarrow> \<not> sublist ''thumb2'' (joint_names sk ! nat j)"
          by blast
        have "\<forall>j. i \<le> j \<and> j < k \<longrightarrow> \<not> sublist ''thumb2'' (joint_names sk ! nat j)"
          using first k(5) by blast
        with k step show ?thesis
          by (intro disjI1 exI [of _ k]) simp
      next
        assume n: "(\<forall>j. i + 1 \<le> j \<and> j < num_joints sk \<longrightarrow> \<not> sublist ''thumb2'' (joint_names sk ! nat j))
           \<and> find_attach_joint sk (i + 1) aj = aj"
        then have "\<forall>j. i \<le> j \<and> j < num_joints sk \<longrightarrow> \<not> sublist ''thumb2'' (joint_names sk ! nat j)"
          using first by blast
        with n step show ?thesis by simp
      qed
    qed
  qed
qed

lemma OnInitialize_attach_joint:
  assumes "LoadSkeleton fw = Some sk"
  shows "attach_joint (snd (OnInitialize fw s)) = find_attach_joint sk 0 (attach_joint s)"
    and "skeleton (snd (OnInitialize fw s)) = sk"
  using assms by (simp_all add: OnInitialize_def Let_def split: option.splits)

text \<open>
  C7. Selection of the joint: after construction and initialisation with a skeleton that
  loads, \<^verbatim>\<open>attach_joint_\<close> is the index of the first joint, in the order of the skeleton,
  whose name contains \<^verbatim>\<open>thumb2\<close>; if no name contains it, the index is 0, as the
  constructor set it.
\<close>

theorem attach_joint_selection:
  assumes "LoadSkeleton fw = Some sk"
  shows "(\<exists>i < length (joint_names sk).
            attach_joint (snd (OnInitialize fw (LoadSampleApplication_ctor c a t))) = int i
          \<and> sublist ''thumb2'' (joint_names sk ! i)
          \<and> (\<forall>j < i. \<not> sublist ''thumb2'' (joint_names sk ! j)))
       \<or> ((\<forall>i < length (joint_names sk). \<not> sublist ''thumb2'' (joint_names sk ! i))
          \<and> attach_joint (snd (OnInitialize fw (LoadSampleApplication_ctor c a t))) = 0)"
proof -
  let ?aj = "attach_joint (snd (OnInitialize fw (LoadSampleApplication_ctor c a t)))"
  have aj: "?aj = find_attach_joint sk 0 0"
    using OnInitialize_attach_joint(1) [OF assms]
    by (simp add: LoadSampleApplication_ctor_def)
  have "(0::int) \<le> 0" by simp
  from find_attach_joint_result [OF this, of sk 0]
  show ?thesis
  proof
    assume "\<exists>k. 0 \<le> k \<and> k < num_joints sk \<and> find_attach_joint sk 0 0 = k
              \<and> sublist ''thumb2'' (joint_names sk ! nat k)
              \<and> (\<forall>j. 0 \<le> j \<and> j < k \<longrightarrow> \<not> sublist ''thumb2'' (joint_names sk ! nat j))"
    then obtain k where k: "0 \<le> k" "k < num_joints sk" "find_attach_joint sk 0 0 = k"
      "sublist ''thumb2'' (joint_names sk ! nat k)"
      "\<forall>j. 0 \<le> j \<and> j < k \<longrightarrow> \<not> sublist ''thumb2'' (joint_names sk ! nat j)"
      by blast
    have "\<not> sublist ''thumb2'' (joint_names sk ! j)" if "j < nat k" for j
      using k(5) [rule_format, of "int j"] that by simp
    with k aj have "nat k < length (joint_names sk) \<and> ?aj = int (nat k)
          \<and> sublist ''thumb2'' (joint_names sk ! nat k)
          \<and> (\<forall>j < nat k. \<not> sublist ''thumb2'' (joint_names sk ! j))"
      by (simp add: num_joints_def)
    then show ?thesis by blast
  next
    assume n: "(\<forall>j. 0 \<le> j \<and> j < num_joints sk \<longrightarrow> \<not> sublist ''thumb2'' (joint_names sk ! nat j))
           \<and> find_attach_joint sk 0 0 = 0"
    have "\<not> sublist ''thumb2'' (joint_names sk ! i)" if "i < length (joint_names sk)" for i
      using n [THEN conjunct1, rule_format, of "int i"] that by (simp add: num_joints_def)
    with n aj show ?thesis by simp
  qed
qed

theorem attach_joint_selection_witness:
  "LoadSkeleton (scene_framework [''wrist'', ''thumb1'', ''thumb2'']) =
     Some \<lparr>joint_names = [''wrist'', ''thumb1'', ''thumb2'']\<rparr>
   \<and> attach_joint scene_app = 2
   \<and> sublist ''thumb2'' ([''wrist'', ''thumb1'', ''thumb2''] ! 2)"
proof -
  have l: "LoadSkeleton (scene_framework [''wrist'', ''thumb1'', ''thumb2'']) =
     Some \<lparr>joint_names = [''wrist'', ''thumb1'', ''thumb2'']\<rparr>"
    by (simp add: scene_framework_def)
  from attach_joint_selection [OF l, of "\<lparr>ctl_time = 0, ctl_previous_time = 0\<rparr>" "()" "()"]
  show ?thesis
    using l by (simp add: scene_app_eq)
qed

lemma same_attachment_refl [simp]: "same_attachment s s"
  by (simp add: same_attachment_def)

lemma same_attachment_trans:
  "same_attachment s s' \<Longrightarrow> same_attachment s' s'' \<Longrightarrow> same_attachment s s''"
  by (simp add: same_attachment_def)

lemma in_range_same_attachment:
  "attach_joint_in_range s \<Longrightarrow> same_attachment s s' \<Longrightarrow> attach_joint_in_range s'"
  by (simp add: same_attachment_def attach_joint_in_range_def)

lemma in_range_models_at:
  "attach_joint_in_range s \<Longrightarrow>
   models_at_attach_joint s = Some (models s ! nat (attach_joint s))"
  by (simp add: attach_joint_in_range_def models_at_attach_joint_def)

lemma Update_Joints_same_attachment:
  assumes "writes_in_place env"
  shows "same_attachment s (snd (Update_Joints env t s))"
proof -
  have "length m' = length out" if "LocalToModelJob_Run env sk inp out = (ok, m')"
    for sk inp out ok m'
  proof -
    from assms have "length (snd (LocalToModelJob_Run env sk inp out)) = length out"
      by (simp add: writes_in_place_def)
    with that show ?thesis by simp
  qed
  then show ?thesis
    by (auto simp: same_attachment_def Update_Joints_def Let_def split: prod.splits)
qed

lemma policyB_edge_in_range:
  assumes w: "writes_in_place env" and r: "attach_joint_in_range s"
  shows "\<exists>ok s'. policyB_edge env e s = Some (ok, s') \<and> same_attachment s s'"
proof -
  let ?s0 = "s\<lparr>attached := rising e\<rparr>"
  obtain ok s1 where uj: "Update_Joints env (time e * duration env (animation s)) ?s0 = (ok, s1)"
    by (cases "Update_Joints env (time e * duration env (animation s)) ?s0")
  from Update_Joints_same_attachment [OF w, of ?s0 "time e * duration env (animation s)"] uj
  have sa: "same_attachment s s1"
    by (simp add: same_attachment_def)
  with r have "attach_joint_in_range s1" by (rule in_range_same_attachment)
  then have m: "models_at_attach_joint s1 = Some (models s1 ! nat (attach_joint s1))"
    by (rule in_range_models_at)
  from uj m sa show ?thesis
    by (cases ok) (auto simp: policyB_edge_def same_attachment_def)
qed

lemma policyB_edges_in_range:
  assumes w: "writes_in_place env"
  shows "attach_joint_in_range s \<Longrightarrow>
         \<exists>ok s'. policyB_edges env es s = Some (ok, s') \<and> same_attachment s s'"
proof (induction es arbitrary: s)
  case Nil
  then show ?case by auto
next
  case (Cons e es)
  from policyB_edge_in_range [OF w Cons.prems, of e] obtain ok s1 where
    e: "policyB_edge env e s = Some (ok, s1)" and sa: "same_attachment s s1"
    by blast
  show ?case
  proof (cases ok)
    case False
    with e sa show ?thesis by auto
  next
    case True
    from Cons.prems sa have "attach_joint_in_range s1" by (rule in_range_same_attachment)
    from Cons.IH [OF this] obtain ok' s' where
      "policyB_edges env es s1 = Some (ok', s')" "same_attachment s1 s'"
      by blast
    with e sa True show ?thesis
      by (auto intro: same_attachment_trans)
  qed
qed

lemma Update_TriggeringMethod_in_range:
  assumes w: "writes_in_place env" and r: "attach_joint_in_range s"
  shows "\<exists>ok s'. Update_TriggeringMethod env s = Some (ok, s') \<and> same_attachment s s'"
proof (cases "FloatTrackTriggeringJob_Run env (track s)
             (ctl_previous_time (controller s) / duration env (animation s))
             (ctl_time (controller s) / duration env (animation s)) (1 / 2) 8")
  case None
  then show ?thesis by (auto simp: Update_TriggeringMethod_policyB policyB_def)
next
  case (Some es)
  from policyB_edges_in_range [OF w r, of es] obtain ok s1 where
    e: "policyB_edges env es s = Some (ok, s1)" and sa: "same_attachment s s1"
    by blast
  show ?thesis
  proof (cases ok)
    case False
    with Some e sa show ?thesis by (auto simp: Update_TriggeringMethod_policyB policyB_def)
  next
    case True
    obtain ok2 s2 where uj: "Update_Joints env (ctl_time (controller s)) s1 = (ok2, s2)"
      by (cases "Update_Joints env (ctl_time (controller s)) s1")
    from Update_Joints_same_attachment [OF w, of s1 "ctl_time (controller s)"] uj
    have "same_attachment s1 s2" by simp
    with sa have "same_attachment s s2" by (rule same_attachment_trans)
    with Some e True uj show ?thesis
      by (auto simp: Update_TriggeringMethod_policyB policyB_def)
  qed
qed

lemma Update_SamplingMethod_in_range:
  assumes w: "writes_in_place env" and r: "attach_joint_in_range s"
  shows "\<exists>ok s'. Update_SamplingMethod env s = Some (ok, s') \<and> same_attachment s s'"
proof -
  obtain ok s1 where uj: "Update_Joints env (ctl_time (controller s)) s = (ok, s1)"
    by (cases "Update_Joints env (ctl_time (controller s)) s")
  from Update_Joints_same_attachment [OF w, of s "ctl_time (controller s)"] uj
  have sa: "same_attachment s s1" by simp
  with r have "attach_joint_in_range s1" by (rule in_range_same_attachment)
  then have "attach_joint_in_range (s1\<lparr>attached := b\<rparr>)" for b
    by (simp add: attach_joint_in_range_def)
  then have m: "models_at_attach_joint (s1\<lparr>attached := b\<rparr>)
       = Some (models s1 ! nat (attach_joint s1))" for b
    using in_range_models_at [of "s1\<lparr>attached := b\<rparr>"] by simp
  from uj sa m show ?thesis
    by (cases ok)
       (auto simp: Update_SamplingMethod_def Let_def same_attachment_def split: option.splits)
qed

lemma OnUpdate_in_range:
  assumes w: "writes_in_place env" and r: "attach_joint_in_range s"
  shows "\<exists>ok s'. OnUpdate env dt s = Some (ok, s') \<and> same_attachment s s'"
proof -
  let ?s0 = "s\<lparr>controller := controller_Update env (animation s) dt (controller s)\<rparr>"
  let ?u = "if reading_method ?s0 = 0 then Update_SamplingMethod env ?s0
            else Update_TriggeringMethod env ?s0"
  from r have r0: "attach_joint_in_range ?s0"
    by (simp add: attach_joint_in_range_def)
  have "\<exists>ok s'. ?u = Some (ok, s') \<and> same_attachment ?s0 s'"
    using Update_SamplingMethod_in_range [OF w r0] Update_TriggeringMethod_in_range [OF w r0]
    by simp
  then obtain ok s1 where u: "?u = Some (ok, s1)" and sa: "same_attachment ?s0 s1"
    by blast
  from r0 sa have "attach_joint_in_range s1" by (rule in_range_same_attachment)
  then have m: "models_at_attach_joint s1 = Some (models s1 ! nat (attach_joint s1))"
    by (rule in_range_models_at)
  from sa have sa': "same_attachment s s1" by (simp add: same_attachment_def)
  have "OnUpdate env dt s =
      (case ?u of None \<Rightarrow> None
       | Some (False, s1) \<Rightarrow> Some (False, s1)
       | Some (True, s1) \<Rightarrow>
           if attached s1
           then (case models_at_attach_joint s1 of
                   None \<Rightarrow> None
                 | Some m \<Rightarrow>
                     Some (True, s1\<lparr>box_world_transform := m * box_local_transform s1\<rparr>))
           else Some (True, s1))"
    by (simp add: OnUpdate_def Let_def)
  with u m sa' show ?thesis
    by (cases ok) (auto simp: same_attachment_def)
qed

lemma OnGui_same_attachment: "same_attachment s (snd (OnGui env g s))"
  by (simp add: OnGui_def Let_def same_attachment_def)

lemma run_in_range:
  assumes w: "writes_in_place env"
  shows "attach_joint_in_range s \<Longrightarrow> \<exists>s'. run env ops s = Some s' \<and> same_attachment s s'"
proof (induction ops arbitrary: s)
  case Nil
  then show ?case by simp
next
  case (Cons op ops)
  show ?case
  proof (cases op)
    case (Update dt)
    from OnUpdate_in_range [OF w Cons.prems, of dt] obtain ok s1 where
      u: "OnUpdate env dt s = Some (ok, s1)" and sa: "same_attachment s s1"
      by blast
    from Cons.prems sa have "attach_joint_in_range s1" by (rule in_range_same_attachment)
    from Cons.IH [OF this] obtain s' where "run env ops s1 = Some s'" "same_attachment s1 s'"
      by blast
    with u sa Update show ?thesis by (auto intro: same_attachment_trans)
  next
    case (Gui g)
    have sa: "same_attachment s (snd (OnGui env g s))" by (rule OnGui_same_attachment)
    with Cons.prems have "attach_joint_in_range (snd (OnGui env g s))"
      by (rule in_range_same_attachment)
    from Cons.IH [OF this] obtain s' where
      "run env ops (snd (OnGui env g s)) = Some s'" "same_attachment (snd (OnGui env g s)) s'"
      by blast
    with sa Gui show ?thesis by (auto intro: same_attachment_trans)
  qed
qed

lemma find_attach_joint_in_range:
  assumes "0 \<le> aj" "aj < num_joints sk"
  shows "0 \<le> find_attach_joint sk 0 aj \<and> find_attach_joint sk 0 aj < num_joints sk"
proof -
  have "(0::int) \<le> 0" by simp
  from find_attach_joint_result [OF this, of sk aj] assms show ?thesis by auto
qed

lemma OnInitialize_in_range:
  assumes "OnInitialize fw s = (True, s')" and "attach_joint s = 0"
    and "1 \<le> num_joints (skeleton s')"
  shows "attach_joint_in_range s'"
proof -
  from assms(1) obtain sk where sk: "LoadSkeleton fw = Some sk"
    by (auto simp: OnInitialize_def split: option.splits)
  from assms(1) sk have s': "skeleton s' = sk" "attach_joint s' = find_attach_joint sk 0 (attach_joint s)"
    "models s' = map (uninitialized_Float4x4 fw) [0 ..< nat (num_joints sk)]"
    by (auto simp: OnInitialize_def Let_def split: option.splits)
  from assms(3) s' have "0 \<le> (0::int)" "0 < num_joints sk" by simp_all
  from find_attach_joint_in_range [OF this] s' assms(2) show ?thesis
    by (simp add: attach_joint_in_range_def num_joints_def)
qed

text \<open>
  C10. Bound on the joint index: after a successful initialisation with a skeleton of at
  least one joint, \<^verbatim>\<open>attach_joint_\<close> is at least 0 and less than the number of joints,
  and \<^verbatim>\<open>models_\<close> has exactly that many entries. No later call of \<^verbatim>\<open>OnUpdate\<close> or
  \<^verbatim>\<open>OnGui\<close> changes the index, and none of them ever reads \<^verbatim>\<open>models_\<close> outside its
  range (a run of such calls always yields a state), provided the local-to-model job
  writes into the range it is given.
\<close>

theorem attach_joint_index_bound:
  assumes "OnInitialize fw (LoadSampleApplication_ctor c a t) = (True, s)"
    and "1 \<le> num_joints (skeleton s)"
    and "writes_in_place env"
  shows "0 \<le> attach_joint s \<and> attach_joint s < num_joints (skeleton s)
       \<and> int (length (models s)) = num_joints (skeleton s)
       \<and> (\<forall>ops. \<exists>s'. run env ops s = Some s'
             \<and> attach_joint s' = attach_joint s
             \<and> 0 \<le> attach_joint s' \<and> attach_joint s' < int (length (models s')))"
proof -
  have "attach_joint (LoadSampleApplication_ctor c a t) = 0"
    by (simp add: LoadSampleApplication_ctor_def)
  from OnInitialize_in_range [OF assms(1) this assms(2)] have r: "attach_joint_in_range s" .
  have "\<exists>s'. run env ops s = Some s'
             \<and> attach_joint s' = attach_joint s
             \<and> 0 \<le> attach_joint s' \<and> attach_joint s' < int (length (models s'))" for ops
  proof -
    from run_in_range [OF assms(3) r, of ops] obtain s' where
      s': "run env ops s = Some s'" "same_attachment s s'"
      by blast
    from r s'(2) have "attach_joint_in_range s'" by (rule in_range_same_attachment)
    with s' show ?thesis
      by (auto simp: attach_joint_in_range_def same_attachment_def)
  qed
  with r show ?thesis
    by (simp add: attach_joint_in_range_def)
qed

theorem attach_joint_index_bound_witness:
  "OnInitialize (scene_framework [''wrist'', ''thumb1'', ''thumb2''])
     (LoadSampleApplication_ctor \<lparr>ctl_time = 0, ctl_previous_time = 0\<rparr> () ()) = (True, scene_app)
   \<and> 1 \<le> num_joints (skeleton scene_app)
   \<and> writes_in_place (scene [])
   \<and> attach_joint scene_app = 2
   \<and> length (models scene_app) = 3
   \<and> (\<exists>s'. run (scene []) [Update 8, Update 1] scene_app = Some s'
          \<and> attach_joint s' = 2 \<and> attach_joint s' < int (length (models s')))"
proof -
  have init: "OnInitialize (scene_framework [''wrist'', ''thumb1'', ''thumb2''])
     (LoadSampleApplication_ctor \<lparr>ctl_time = 0, ctl_previous_time = 0\<rparr> () ()) = (True, scene_app)"
    by (simp add: scene_app_def OnInitialize_def scene_framework_def Let_def)
  have joints: "1 \<le> num_joints (skeleton scene_app)"
    by (simp add: scene_app_eq num_joints_def)
  have w: "writes_in_place (scene [])" by (rule writes_in_place_scene)
  have aj: "attach_joint scene_app = 2" "length (models scene_app) = 3"
    by (simp_all add: scene_app_eq)
  from attach_joint_index_bound [OF init joints w, THEN conjunct2, THEN conjunct2, THEN conjunct2,
      THEN spec, of "[Update 8, Update 1]"]
  obtain s' where "run (scene []) [Update 8, Update 1] scene_app = Some s'"
    "attach_joint s' = attach_joint scene_app" "attach_joint s' < int (length (models s'))"
    by blast
  with aj have "\<exists>s'. run (scene []) [Update 8, Update 1] scene_app = Some s'
          \<and> attach_joint s' = 2 \<and> attach_joint s' < int (length (models s'))"
    by auto
  with init joints w aj show ?thesis
    by blast
qed

subsection \<open>One step or two\<close>

lemma Update_Joints_pose:
  assumes "evaluates_pose env s0 M" and "session_data s = session_data s0"
  shows "\<exists>s'. Update_Joints env t s = (True, s') \<and> models s' = M t
            \<and> session_data s' = session_data s0
            \<and> controller s' = controller s \<and> attached s' = attached s
            \<and> box_local_transform s' = box_local_transform s
            \<and> box_world_transform s' = box_world_transform s"
proof -
  obtain ok s' where uj: "Update_Joints env t s = (ok, s')"
    by (cases "Update_Joints env t s")
  from assms uj have p: "ok" "models s' = M t" "length (locals s') = length (locals s0)"
    "length (M t) = length (models s0)"
    unfolding evaluates_pose_def by (metis fst_conv, metis snd_conv, metis snd_conv, metis)
  note fr = Update_Joints_frame_eq [OF uj]
  from assms(2) fr p have "session_data s' = session_data s0"
    by (simp add: session_data_def)
  with uj p fr show ?thesis by simp
qed

lemma policyB_edge_pose:
  assumes pose: "evaluates_pose env s0 M" and sd: "session_data s = session_data s0"
    and range: "0 \<le> attach_joint s0" "attach_joint s0 < int (length (models s0))"
  shows "\<exists>s'. policyB_edge env e s = Some (True, s')
            \<and> session_data s' = session_data s0
            \<and> controller s' = controller s \<and> attached s' = rising e
            \<and> box_local_transform s' =
                (if rising e
                 then Invert (M (time e * duration env (animation s0)) ! nat (attach_joint s0))
                        * box_world_transform s
                 else box_local_transform s)
            \<and> box_world_transform s' =
                (if rising e then box_world_transform s
                 else M (time e * duration env (animation s0)) ! nat (attach_joint s0)
                        * box_local_transform s)"
proof -
  let ?t = "time e * duration env (animation s)"
  have sd': "session_data (s\<lparr>attached := rising e\<rparr>) = session_data s0"
    using sd by (simp add: session_data_def)
  from Update_Joints_pose [OF pose sd', of ?t] obtain s1 where
    uj: "Update_Joints env ?t (s\<lparr>attached := rising e\<rparr>) = (True, s1)"
    and s1: "models s1 = M ?t" "session_data s1 = session_data s0"
      "controller s1 = controller s" "attached s1 = rising e"
      "box_local_transform s1 = box_local_transform s"
      "box_world_transform s1 = box_world_transform s"
    by auto
  from sd have a: "animation s = animation s0" by (simp add: session_data_def)
  from s1(2) have j: "attach_joint s1 = attach_joint s0" "length (models s1) = length (models s0)"
    by (simp_all add: session_data_def)
  with range have m: "models_at_attach_joint s1 = Some (M ?t ! nat (attach_joint s0))"
    by (simp add: models_at_attach_joint_def s1(1))
  from s1(2) have sd1: "session_data (s1\<lparr>box_local_transform := x\<rparr>) = session_data s0"
    "session_data (s1\<lparr>box_world_transform := x\<rparr>) = session_data s0" for x
    by (simp_all add: session_data_def)
  show ?thesis
    using uj m s1 sd1 a by (simp add: policyB_edge_def)
qed

lemma OnUpdate_no_edge:
  assumes clock: "clock_advances env" and pose: "evaluates_pose env s0 M"
    and sd: "session_data s = session_data s0" and meth: "reading_method s0 \<noteq> 0"
    and range: "0 \<le> attach_joint s0" "attach_joint s0 < int (length (models s0))"
    and q: "FloatTrackTriggeringJob_Run env (track s0)
              (ctl_time (controller s) / duration env (animation s0))
              ((ctl_time (controller s) + dt) / duration env (animation s0)) (1 / 2) 8 = Some []"
  shows "\<exists>s'. OnUpdate env dt s = Some (True, s')
            \<and> session_data s' = session_data s0
            \<and> ctl_time (controller s') = ctl_time (controller s) + dt
            \<and> attached s' = attached s
            \<and> box_local_transform s' = box_local_transform s
            \<and> box_world_transform s' =
                (if attached s
                 then M (ctl_time (controller s) + dt) ! nat (attach_joint s0)
                        * box_local_transform s
                 else box_world_transform s)"
proof -
  let ?c = "\<lparr>ctl_time = ctl_time (controller s) + dt, ctl_previous_time = ctl_time (controller s)\<rparr>"
  let ?s = "s\<lparr>controller := ?c\<rparr>"
  from clock have c: "controller_Update env (animation s) dt (controller s) = ?c"
    by (simp add: clock_advances_def)
  from sd have sd0: "session_data ?s = session_data s0" by (simp add: session_data_def)
  from sd have f: "track s = track s0" "animation s = animation s0" "reading_method s = reading_method s0"
    by (simp_all add: session_data_def)
  from Update_Joints_pose [OF pose sd0, of "ctl_time (controller s) + dt"] obtain s1 where
    uj: "Update_Joints env (ctl_time (controller s) + dt) ?s = (True, s1)"
    and s1: "models s1 = M (ctl_time (controller s) + dt)" "session_data s1 = session_data s0"
      "controller s1 = ?c" "attached s1 = attached s"
      "box_local_transform s1 = box_local_transform s"
      "box_world_transform s1 = box_world_transform s"
    by auto
  from q f uj have u: "Update_TriggeringMethod env ?s = Some (True, s1)"
    by (simp add: Update_TriggeringMethod_policyB policyB_def)
  from s1(2) have j: "attach_joint s1 = attach_joint s0" "length (models s1) = length (models s0)"
    by (simp_all add: session_data_def)
  with range have m: "models_at_attach_joint s1
      = Some (M (ctl_time (controller s) + dt) ! nat (attach_joint s0))"
    by (simp add: models_at_attach_joint_def s1(1))
  from s1(2) have sd1: "session_data (s1\<lparr>box_world_transform := x\<rparr>) = session_data s0" for x
    by (simp add: session_data_def)
  show ?thesis
    using c f meth u m s1 sd1 by (simp add: OnUpdate_def)
qed

lemma OnUpdate_one_edge:
  assumes clock: "clock_advances env" and pose: "evaluates_pose env s0 M"
    and sd: "session_data s = session_data s0" and meth: "reading_method s0 \<noteq> 0"
    and range: "0 \<le> attach_joint s0" "attach_joint s0 < int (length (models s0))"
    and q: "FloatTrackTriggeringJob_Run env (track s0)
              (ctl_time (controller s) / duration env (animation s0))
              ((ctl_time (controller s) + dt) / duration env (animation s0)) (1 / 2) 8 = Some [e]"
  shows "\<exists>s'. OnUpdate env dt s = Some (True, s')
            \<and> session_data s' = session_data s0
            \<and> ctl_time (controller s') = ctl_time (controller s) + dt
            \<and> attached s' = rising e
            \<and> box_local_transform s' =
                (if rising e
                 then Invert (M (time e * duration env (animation s0)) ! nat (attach_joint s0))
                        * box_world_transform s
                 else box_local_transform s)
            \<and> box_world_transform s' =
                (if rising e
                 then M (ctl_time (controller s) + dt) ! nat (attach_joint s0)
                        * (Invert (M (time e * duration env (animation s0)) ! nat (attach_joint s0))
                            * box_world_transform s)
                 else M (time e * duration env (animation s0)) ! nat (attach_joint s0)
                        * box_local_transform s)"
proof -
  let ?c = "\<lparr>ctl_time = ctl_time (controller s) + dt, ctl_previous_time = ctl_time (controller s)\<rparr>"
  let ?s = "s\<lparr>controller := ?c\<rparr>"
  from clock have c: "controller_Update env (animation s) dt (controller s) = ?c"
    by (simp add: clock_advances_def)
  from sd have sd0: "session_data ?s = session_data s0" by (simp add: session_data_def)
  from sd have f: "track s = track s0" "animation s = animation s0" "reading_method s = reading_method s0"
    by (simp_all add: session_data_def)
  from policyB_edge_pose [OF pose sd0 range, of e] obtain s1 where
    e: "policyB_edge env e ?s = Some (True, s1)"
    and s1: "session_data s1 = session_data s0" "controller s1 = ?c" "attached s1 = rising e"
      "box_local_transform s1 =
                (if rising e
                 then Invert (M (time e * duration env (animation s0)) ! nat (attach_joint s0))
                        * box_world_transform s
                 else box_local_transform s)"
      "box_world_transform s1 =
                (if rising e then box_world_transform s
                 else M (time e * duration env (animation s0)) ! nat (attach_joint s0)
                        * box_local_transform s)"
    by auto
  from Update_Joints_pose [OF pose s1(1), of "ctl_time (controller s) + dt"] obtain s2 where
    uj: "Update_Joints env (ctl_time (controller s) + dt) s1 = (True, s2)"
    and s2: "models s2 = M (ctl_time (controller s) + dt)" "session_data s2 = session_data s0"
      "controller s2 = controller s1" "attached s2 = attached s1"
      "box_local_transform s2 = box_local_transform s1"
      "box_world_transform s2 = box_world_transform s1"
    by auto
  from q f e uj have u: "Update_TriggeringMethod env ?s = Some (True, s2)"
    by (simp add: Update_TriggeringMethod_policyB policyB_def)
  from s2(2) have j: "attach_joint s2 = attach_joint s0" "length (models s2) = length (models s0)"
    by (simp_all add: session_data_def)
  with range have m: "models_at_attach_joint s2
      = Some (M (ctl_time (controller s) + dt) ! nat (attach_joint s0))"
    by (simp add: models_at_attach_joint_def s2(1))
  from s2(2) have sd2: "session_data (s2\<lparr>box_world_transform := x\<rparr>) = session_data s0" for x
    by (simp add: session_data_def)
  show ?thesis
    using c f meth u m s1 s2 sd2 by (simp add: OnUpdate_def)
qed

lemma one_step_or_two:
  assumes clock: "clock_advances env" and pose: "evaluates_pose env s M"
    and meth: "reading_method s \<noteq> 0"
    and range: "0 \<le> attach_joint s" "attach_joint s < int (length (models s))"
    and whole: "FloatTrackTriggeringJob_Run env (track s)
                  (ctl_time (controller s) / duration env (animation s))
                  ((ctl_time (controller s) + dt) / duration env (animation s)) (1 / 2) 8
                = Some [e]"
    and first: "FloatTrackTriggeringJob_Run env (track s)
                  (ctl_time (controller s) / duration env (animation s))
                  ((ctl_time (controller s) + dt / 2) / duration env (animation s)) (1 / 2) 8
                = Some es1"
    and second: "FloatTrackTriggeringJob_Run env (track s)
                  ((ctl_time (controller s) + dt / 2) / duration env (animation s))
                  ((ctl_time (controller s) + dt) / duration env (animation s)) (1 / 2) 8
                = Some es2"
    and once: "es1 @ es2 = [e]"
    and agree: "attached s \<and> rising e \<longrightarrow> es2 = []"
    and dur: "duration env (animation s) \<noteq> 0"
  shows "\<exists>s1 s2. OnUpdate env dt s = Some (True, s1)
              \<and> two_steps env (dt / 2) s = Some (True, s2)
              \<and> attached s1 = attached s2
              \<and> box_local_transform s1 = box_local_transform s2
              \<and> box_world_transform s1 = box_world_transform s2"
proof -
  let ?t = "ctl_time (controller s)"
  have half: "?t + dt / 2 + dt / 2 = ?t + dt" by simp
  from OnUpdate_one_edge [OF clock pose refl meth range whole] obtain s1 where
    s1: "OnUpdate env dt s = Some (True, s1)"
      "attached s1 = rising e"
      "box_local_transform s1 =
                (if rising e
                 then Invert (M (time e * duration env (animation s)) ! nat (attach_joint s))
                        * box_world_transform s
                 else box_local_transform s)"
      "box_world_transform s1 =
                (if rising e
                 then M (?t + dt) ! nat (attach_joint s)
                        * (Invert (M (time e * duration env (animation s)) ! nat (attach_joint s))
                            * box_world_transform s)
                 else M (time e * duration env (animation s)) ! nat (attach_joint s)
                        * box_local_transform s)"
    by auto
  from once have "es1 = [e] \<and> es2 = [] \<or> es1 = [] \<and> es2 = [e]"
    by (cases es1) simp_all
  then show ?thesis
  proof
    assume es: "es1 = [e] \<and> es2 = []"
    from first es have q1: "FloatTrackTriggeringJob_Run env (track s)
                  (?t / duration env (animation s))
                  ((?t + dt / 2) / duration env (animation s)) (1 / 2) 8 = Some [e]"
      by (simp only:)
    from OnUpdate_one_edge [OF clock pose refl meth range q1] obtain sa where
      sa: "OnUpdate env (dt / 2) s = Some (True, sa)"
        "session_data sa = session_data s"
        "ctl_time (controller sa) = ?t + dt / 2"
        "attached sa = rising e"
        "box_local_transform sa =
                (if rising e
                 then Invert (M (time e * duration env (animation s)) ! nat (attach_joint s))
                        * box_world_transform s
                 else box_local_transform s)"
        "box_world_transform sa =
                (if rising e
                 then M (?t + dt / 2) ! nat (attach_joint s)
                        * (Invert (M (time e * duration env (animation s)) ! nat (attach_joint s))
                            * box_world_transform s)
                 else M (time e * duration env (animation s)) ! nat (attach_joint s)
                        * box_local_transform s)"
      by auto
    from second es have "FloatTrackTriggeringJob_Run env (track s)
                  ((?t + dt / 2) / duration env (animation s))
                  ((?t + dt) / duration env (animation s)) (1 / 2) 8
                = Some []"
      by (simp only:)
    then have q2: "FloatTrackTriggeringJob_Run env (track s)
                  (ctl_time (controller sa) / duration env (animation s))
                  ((ctl_time (controller sa) + dt / 2) / duration env (animation s)) (1 / 2) 8
                = Some []"
      by (simp only: sa(3) half)
    from OnUpdate_no_edge [OF clock pose sa(2) meth range q2] obtain s2 where
      s2: "OnUpdate env (dt / 2) sa = Some (True, s2)"
        "attached s2 = attached sa"
        "box_local_transform s2 = box_local_transform sa"
        "box_world_transform s2 =
                (if attached sa
                 then M (ctl_time (controller sa) + dt / 2) ! nat (attach_joint s)
                        * box_local_transform sa
                 else box_world_transform sa)"
      by auto
    from sa(1) s2(1) have two: "two_steps env (dt / 2) s = Some (True, s2)"
      by (simp add: two_steps_def)
    have e2: "ctl_time (controller sa) + dt / 2 = ?t + dt"
      by (simp only: sa(3) half)
    have "attached s1 = attached s2"
      by (simp only: s1(2) s2(2) sa(4))
    moreover have "box_local_transform s1 = box_local_transform s2"
      by (simp only: s1(3) s2(3) sa(5))
    moreover have "box_world_transform s1 = box_world_transform s2"
      by (cases "rising e") (simp_all only: s1(4) s2(4) sa(4,5,6) e2 if_True if_False)
    ultimately have "attached s1 = attached s2"
      "box_local_transform s1 = box_local_transform s2"
      "box_world_transform s1 = box_world_transform s2"
      by blast+
    with s1(1) two show ?thesis by blast
  next
    assume es: "es1 = [] \<and> es2 = [e]"
    with agree have na: "\<not> (attached s \<and> rising e)" by simp
    from first es have q1: "FloatTrackTriggeringJob_Run env (track s)
                  (?t / duration env (animation s))
                  ((?t + dt / 2) / duration env (animation s)) (1 / 2) 8 = Some []"
      by (simp only:)
    from OnUpdate_no_edge [OF clock pose refl meth range q1] obtain sa where
      sa: "OnUpdate env (dt / 2) s = Some (True, sa)"
        "session_data sa = session_data s"
        "ctl_time (controller sa) = ?t + dt / 2"
        "attached sa = attached s"
        "box_local_transform sa = box_local_transform s"
        "box_world_transform sa =
                (if attached s
                 then M (?t + dt / 2) ! nat (attach_joint s) * box_local_transform s
                 else box_world_transform s)"
      by auto
    from second es have "FloatTrackTriggeringJob_Run env (track s)
                  ((?t + dt / 2) / duration env (animation s))
                  ((?t + dt) / duration env (animation s)) (1 / 2) 8
                = Some [e]"
      by (simp only:)
    then have q2: "FloatTrackTriggeringJob_Run env (track s)
                  (ctl_time (controller sa) / duration env (animation s))
                  ((ctl_time (controller sa) + dt / 2) / duration env (animation s)) (1 / 2) 8
                = Some [e]"
      by (simp only: sa(3) half)
    from OnUpdate_one_edge [OF clock pose sa(2) meth range q2] obtain s2 where
      s2: "OnUpdate env (dt / 2) sa = Some (True, s2)"
        "attached s2 = rising e"
        "box_local_transform s2 =
                (if rising e
                 then Invert (M (time e * duration env (animation s)) ! nat (attach_joint s))
                        * box_world_transform sa
                 else box_local_transform sa)"
        "box_world_transform s2 =
                (if rising e
                 then M (ctl_time (controller sa) + dt / 2) ! nat (attach_joint s)
                        * (Invert (M (time e * duration env (animation s)) ! nat (attach_joint s))
                            * box_world_transform sa)
                 else M (time e * duration env (animation s)) ! nat (attach_joint s)
                        * box_local_transform sa)"
      by auto
    from sa(1) s2(1) have two: "two_steps env (dt / 2) s = Some (True, s2)"
      by (simp add: two_steps_def)
    have e2: "ctl_time (controller sa) + dt / 2 = ?t + dt"
      by (simp only: sa(3) half)
    from na have w: "rising e \<Longrightarrow> box_world_transform sa = box_world_transform s"
      by (simp add: sa(6))
    have "attached s1 = attached s2"
      by (simp only: s1(2) s2(2))
    moreover have "box_local_transform s1 = box_local_transform s2"
      by (cases "rising e") (simp_all only: s1(3) s2(3) sa(5) w if_True if_False)
    moreover have "box_world_transform s1 = box_world_transform s2"
      by (cases "rising e") (simp_all only: s1(4) s2(4) sa(5) w e2 if_True if_False)
    ultimately have "attached s1 = attached s2"
      "box_local_transform s1 = box_local_transform s2"
      "box_world_transform s1 = box_world_transform s2"
      by blast+
    with s1(1) two show ?thesis by blast
  qed
qed

lemma side_after_last:
  "side_after b es = Some b' \<Longrightarrow> b' = (if es = [] then b else rising (last es))"
  by (induction es arbitrary: b) (auto split: if_splits)

lemma side_after_first:
  "side_after b (e # es) = Some b' \<Longrightarrow> rising e \<noteq> b"
  by (auto split: if_splits)

lemma policyB_edge_attached:
  "policyB_edge env e s = Some (True, s') \<Longrightarrow> attached s' = rising e"
  by (auto simp: policyB_edge_def split: prod.splits bool.splits option.splits if_splits
      dest: Update_Joints_frame_eq)

lemma policyB_edges_attached:
  "policyB_edges env es s = Some (True, s') \<Longrightarrow>
   attached s' = (if es = [] then attached s else rising (last es))"
proof (induction es arbitrary: s)
  case Nil
  then show ?case by simp
next
  case (Cons e es)
  from Cons.prems obtain s1 where e: "policyB_edge env e s = Some (True, s1)"
    and rest: "policyB_edges env es s1 = Some (True, s')"
    by (auto split: option.splits bool.splits prod.splits)
  from Cons.IH [OF rest] policyB_edge_attached [OF e] show ?case by simp
qed

lemma OnUpdate_triggering_success:
  assumes ok: "OnUpdate env dt s = Some (True, s')" and meth: "reading_method s \<noteq> 0"
  shows "\<exists>es. FloatTrackTriggeringJob_Run env (track s)
                (ctl_previous_time (controller_Update env (animation s) dt (controller s))
                   / duration env (animation s))
                (ctl_time (controller_Update env (animation s) dt (controller s))
                   / duration env (animation s)) (1 / 2) 8 = Some es
             \<and> attached s' = (if es = [] then attached s else rising (last es))
             \<and> track s' = track s \<and> animation s' = animation s
             \<and> reading_method s' = reading_method s
             \<and> controller s' = controller_Update env (animation s) dt (controller s)"
proof -
  let ?s0 = "s\<lparr>controller := controller_Update env (animation s) dt (controller s)\<rparr>"
  from ok meth obtain s1 where u: "Update_TriggeringMethod env ?s0 = Some (True, s1)"
    and end_stage: "s' = s1 \<or> (\<exists>w. s' = s1\<lparr>box_world_transform := w\<rparr>)"
    by (auto simp: OnUpdate_def Let_def split: option.splits bool.splits prod.splits if_splits)
  from Update_TriggeringMethod_success [OF u] obtain es s2 where
    q: "FloatTrackTriggeringJob_Run env (track ?s0)
           (ctl_previous_time (controller ?s0) / duration env (animation ?s0))
           (ctl_time (controller ?s0) / duration env (animation ?s0)) (1 / 2) 8 = Some es"
    and loop: "edges_loop env es 0 ?s0 = Some (True, s2)"
    and uj: "Update_Joints env (ctl_time (controller ?s0)) s2 = (True, s1)"
    by blast
  from loop have p: "policyB_edges env es ?s0 = Some (True, s2)"
    by (simp add: edges_loop_drop)
  note fr2 = policyB_edges_frame [OF p] and fr1 = Update_Joints_frame_eq [OF uj]
  from policyB_edges_attached [OF p] have a2: "attached s2 = (if es = [] then attached s else rising (last es))"
    by simp
  from end_stage fr1 fr2 a2 have
    "attached s' = (if es = [] then attached s else rising (last es))"
    "track s' = track s" "animation s' = animation s" "reading_method s' = reading_method s"
    "controller s' = controller_Update env (animation s) dt (controller s)"
    by auto
  with q show ?thesis by simp
qed

lemma OnUpdate_keeps_side:
  assumes clock: "clock_advances env"
    and crossings: "reports_crossings env (track s) high"
    and dur: "0 < duration env (animation s)"
    and meth: "reading_method s \<noteq> 0"
    and dt: "0 \<le> dt"
    and inv: "attached s \<longrightarrow> high (ctl_time (controller s) / duration env (animation s))"
    and ok: "OnUpdate env dt s = Some (True, s')"
  shows "(attached s' \<longrightarrow> high (ctl_time (controller s') / duration env (animation s')))
       \<and> track s' = track s \<and> animation s' = animation s
       \<and> reading_method s' = reading_method s"
proof -
  let ?d = "duration env (animation s)"
  let ?t = "ctl_time (controller s)"
  from clock have c: "controller_Update env (animation s) dt (controller s)
      = \<lparr>ctl_time = ?t + dt, ctl_previous_time = ?t\<rparr>"
    by (simp add: clock_advances_def)
  from OnUpdate_triggering_success [OF ok meth] c obtain es where
    q: "FloatTrackTriggeringJob_Run env (track s) (?t / ?d) ((?t + dt) / ?d) (1 / 2) 8 = Some es"
    and a: "attached s' = (if es = [] then attached s else rising (last es))"
    and fr: "track s' = track s" "animation s' = animation s"
      "reading_method s' = reading_method s"
      "controller s' = \<lparr>ctl_time = ?t + dt, ctl_previous_time = ?t\<rparr>"
    by auto
  from dur dt have le: "?t / ?d \<le> (?t + dt) / ?d"
    by (simp add: divide_right_mono)
  from crossings le q have "side_after (high (?t / ?d)) es = Some (high ((?t + dt) / ?d))"
    unfolding reports_crossings_def by blast
  from side_after_last [OF this]
  have "high ((?t + dt) / ?d) = (if es = [] then high (?t / ?d) else rising (last es))" .
  with a inv fr show ?thesis by auto
qed

lemma forward_run_keeps_side:
  assumes clock: "clock_advances env"
  shows "reports_crossings env (track s0) high \<Longrightarrow> 0 < duration env (animation s0) \<Longrightarrow>
         reading_method s0 \<noteq> 0 \<Longrightarrow>
         attached s0 \<longrightarrow> high (ctl_time (controller s0) / duration env (animation s0)) \<Longrightarrow>
         forward_run env dts s0 = Some s \<Longrightarrow>
         (attached s \<longrightarrow> high (ctl_time (controller s) / duration env (animation s)))
         \<and> track s = track s0 \<and> animation s = animation s0
         \<and> reading_method s = reading_method s0"
proof (induction dts arbitrary: s0)
  case Nil
  then show ?case by simp
next
  case (Cons dt dts)
  from Cons.prems(5) have dt: "0 \<le> dt"
    by (auto split: if_splits)
  with Cons.prems(5) obtain s1 where ok: "OnUpdate env dt s0 = Some (True, s1)"
    and rest: "forward_run env dts s1 = Some s"
    by (auto split: option.splits bool.splits prod.splits if_splits)
  from OnUpdate_keeps_side [OF clock Cons.prems(1,2,3) dt Cons.prems(4) ok]
  have s1: "attached s1 \<longrightarrow> high (ctl_time (controller s1) / duration env (animation s1))"
    "track s1 = track s0" "animation s1 = animation s0" "reading_method s1 = reading_method s0"
    by auto
  from Cons.prems(1,2,3) s1 have
    "reports_crossings env (track s1) high" "0 < duration env (animation s1)"
    "reading_method s1 \<noteq> 0"
    by simp_all
  from Cons.IH [OF this s1(1) rest] s1 show ?case by auto
qed

text \<open>
  C1. Frame-rate independence. The collaborators do what the specification says of them:
  the clock adds \<open>dt\<close> to the time, the pose is a function of the time, and the edge
  detector reports the crossings of the track. The application has reached the state \<open>s\<close>
  from a state where the box is not attached (as after construction), by successful steps
  of the edge-triggered policy that do not go back in time. If the track crosses the
  threshold once between the current time and \<open>dt\<close> later, so that the edge query reports
  the edge \<open>e\<close> for the whole interval and reports it in exactly one of the two halves,
  then one call of \<^verbatim>\<open>OnUpdate\<close> with \<open>dt\<close> and two calls with \<open>dt / 2\<close> all succeed and
  end with the same flag, the same local transform and the same world transform.
\<close>

theorem frame_rate_independence:
  assumes clock: "clock_advances env"
    and crossings: "reports_crossings env (track s0) high"
    and dur: "0 < duration env (animation s0)"
    and meth: "reading_method s0 \<noteq> 0"
    and start: "\<not> attached s0"
    and reach: "forward_run env dts s0 = Some s"
    and pose: "evaluates_pose env s M"
    and range: "0 \<le> attach_joint s" "attach_joint s < int (length (models s))"
    and dt: "0 \<le> dt"
    and whole: "FloatTrackTriggeringJob_Run env (track s)
                  (ctl_time (controller s) / duration env (animation s))
                  ((ctl_time (controller s) + dt) / duration env (animation s)) (1 / 2) 8
                = Some [e]"
    and first: "FloatTrackTriggeringJob_Run env (track s)
                  (ctl_time (controller s) / duration env (animation s))
                  ((ctl_time (controller s) + dt / 2) / duration env (animation s)) (1 / 2) 8
                = Some es1"
    and second: "FloatTrackTriggeringJob_Run env (track s)
                  ((ctl_time (controller s) + dt / 2) / duration env (animation s))
                  ((ctl_time (controller s) + dt) / duration env (animation s)) (1 / 2) 8
                = Some es2"
    and once: "es1 @ es2 = [e]"
  shows "\<exists>s1 s2. OnUpdate env dt s = Some (True, s1)
              \<and> two_steps env (dt / 2) s = Some (True, s2)
              \<and> attached s1 = attached s2
              \<and> box_local_transform s1 = box_local_transform s2
              \<and> box_world_transform s1 = box_world_transform s2"
proof -
  let ?d = "duration env (animation s)"
  let ?t = "ctl_time (controller s)"
  from start have "attached s0 \<longrightarrow> high (ctl_time (controller s0) / duration env (animation s0))"
    by simp
  from forward_run_keeps_side [OF clock crossings dur meth this reach]
  have side: "attached s \<longrightarrow> high (?t / ?d)"
    and fr: "track s = track s0" "animation s = animation s0"
      "reading_method s = reading_method s0"
    by auto
  from dur fr have d: "0 < ?d" by simp
  with dt have "?t / ?d \<le> (?t + dt) / ?d"
    by (simp add: divide_right_mono)
  with crossings whole fr have "side_after (high (?t / ?d)) [e] = Some (high ((?t + dt) / ?d))"
    unfolding reports_crossings_def by metis
  from side_after_first [OF this] side have "\<not> (attached s \<and> rising e)"
    by auto
  then have agree: "attached s \<and> rising e \<longrightarrow> es2 = []" by blast
  from meth fr have m: "reading_method s \<noteq> 0" by simp
  from d have nz: "?d \<noteq> 0" by simp
  from one_step_or_two [OF clock pose m range whole first second once agree nz]
  show ?thesis .
qed

theorem frame_rate_independence_witness:
  "clock_advances (scene_pulse [])
   \<and> reports_crossings (scene_pulse []) (track scene_app) pulse_high
   \<and> 0 < duration (scene_pulse []) (animation scene_app)
   \<and> reading_method scene_app \<noteq> 0
   \<and> \<not> attached scene_app
   \<and> forward_run (scene_pulse []) [3] scene_app = Some scene_app_carried
   \<and> attached scene_app_carried
   \<and> evaluates_pose (scene_pulse []) scene_app_carried scene_pose
   \<and> 0 \<le> attach_joint scene_app_carried
   \<and> attach_joint scene_app_carried < int (length (models scene_app_carried))
   \<and> FloatTrackTriggeringJob_Run (scene_pulse []) () (3 / 10) ((3 + 3) / 10) (1 / 2) 8
       = Some [\<lparr>time = 1 / 2, rising = False\<rparr>]
   \<and> FloatTrackTriggeringJob_Run (scene_pulse []) () (3 / 10) ((3 + 3 / 2) / 10) (1 / 2) 8
       = Some []
   \<and> FloatTrackTriggeringJob_Run (scene_pulse []) () ((3 + 3 / 2) / 10) ((3 + 3) / 10) (1 / 2) 8
       = Some [\<lparr>time = 1 / 2, rising = False\<rparr>]
   \<and> box_after (OnUpdate (scene_pulse []) 3 scene_app_carried)
       = box_after (two_steps (scene_pulse []) (3 / 2) scene_app_carried)
   \<and> box_after (OnUpdate (scene_pulse []) 3 scene_app_carried)
       = Some (True, False, Translation (- (5 / 2), 1 / 10, 3 / 10, 0),
               Translation (5 / 2, 1 / 10, 3 / 10, 0))"
proof -
  let ?e = "\<lparr>time = 1 / 2, rising = False\<rparr>"
  let ?s = scene_app_carried
  have clock: "clock_advances (scene_pulse [])" by (rule clock_advances_scene_pulse)
  have crossings: "reports_crossings (scene_pulse []) (track scene_app) pulse_high"
    using reports_crossings_scene_pulse [of "[]"] by (simp add: scene_app_eq)
  have dur: "0 < duration (scene_pulse []) (animation scene_app)"
    by (simp add: scene_pulse_simps)
  have meth: "reading_method scene_app \<noteq> 0" by (simp add: scene_app_eq)
  have start: "\<not> attached scene_app" by (simp add: scene_app_eq)
  have reach: "forward_run (scene_pulse []) [3] scene_app = Some ?s"
    by (simp add: scene_pulse_run scene_app_carried_def scene_pose_def del: Translation.simps)
  have att: "attached ?s" by (simp add: scene_app_carried_def)
  have pose: "evaluates_pose (scene_pulse []) ?s scene_pose"
    by (rule evaluates_pose_scene_pulse)
       (simp_all add: scene_app_carried_def scene_app_eq scene_pose_def)
  have range: "0 \<le> attach_joint ?s" "attach_joint ?s < int (length (models ?s))"
    by (simp_all add: scene_app_carried_def scene_app_eq scene_pose_def)
  have dt: "(0::float) \<le> 3" by simp
  have t: "ctl_time (controller ?s) = 3" "track ?s = ()"
    "duration (scene_pulse []) (animation ?s) = 10"
    by (simp_all add: scene_app_carried_def scene_app_eq scene_pulse_simps)
  have whole: "FloatTrackTriggeringJob_Run (scene_pulse []) (track ?s)
                  (ctl_time (controller ?s) / duration (scene_pulse []) (animation ?s))
                  ((ctl_time (controller ?s) + 3) / duration (scene_pulse []) (animation ?s))
                  (1 / 2) 8 = Some [?e]"
    by (simp add: t scene_pulse_simps)
  have first: "FloatTrackTriggeringJob_Run (scene_pulse []) (track ?s)
                  (ctl_time (controller ?s) / duration (scene_pulse []) (animation ?s))
                  ((ctl_time (controller ?s) + 3 / 2) / duration (scene_pulse []) (animation ?s))
                  (1 / 2) 8 = Some []"
    by (simp add: t scene_pulse_simps)
  have second: "FloatTrackTriggeringJob_Run (scene_pulse []) (track ?s)
                  ((ctl_time (controller ?s) + 3 / 2) / duration (scene_pulse []) (animation ?s))
                  ((ctl_time (controller ?s) + 3) / duration (scene_pulse []) (animation ?s))
                  (1 / 2) 8 = Some [?e]"
    by (simp add: t scene_pulse_simps)
  have once: "[] @ [?e] = [?e]" by simp
  from frame_rate_independence [OF clock crossings dur meth start reach pose range dt
      whole first second once]
  have same: "box_after (OnUpdate (scene_pulse []) 3 ?s)
      = box_after (two_steps (scene_pulse []) (3 / 2) ?s)"
    by (auto simp: box_after_def)
  have one: "box_after (OnUpdate (scene_pulse []) 3 ?s)
       = Some (True, False, Translation (- (5 / 2), 1 / 10, 3 / 10, 0),
               Translation (5 / 2, 1 / 10, 3 / 10, 0))"
    by (simp add: scene_pulse_steps scene_app_carried_def scene_pose_def del: Translation.simps)
  from clock crossings dur meth start reach att pose range same one show ?thesis
    by (simp add: scene_pulse_simps)
qed

end
